theory Spec2Isabelle
  imports Complex_Main
begin

section \<open>The chain monitor of \<open>src/monitor/monitor.ts\<close>\<close>

text \<open>
  The monitor polls one chain for new blocks, derives the address of every contract a
  block creates and fetches the code deployed there, with a bounded number of retries.

  Conventions of the embedding.
  \<^item> A JavaScript number holding a pause (milliseconds) is an exact rational: products and
    quotients are not rounded here, where the program rounds them to binary64. A block
    number and a retry counter are integers.
  \<^item> \<open>parseInt(process.env.X)\<close> is an input: \<open>Some n\<close> for the integer it parsed,
    \<open>None\<close> for \<open>NaN\<close> (variable unset or not a number).
  \<^item> A promise that has settled is \<open>Resolved v\<close> or \<open>Rejected message\<close>; a library
    call that may throw returns a sum, \<open>Inl message\<close> for the exception.
  \<^item> A handler returns the actions it performed, in order: provider calls, log lines,
    synchronous calls of \<open>processBytecode\<close> and calls of \<open>setTimeout\<close>.
\<close>

subsection \<open>Environment and constants\<close>

record process_env =
  env_BLOCK_PAUSE_FACTOR :: "int option"
  env_BLOCK_PAUSE_UPPER_LIMIT :: "int option"
  env_BLOCK_PAUSE_LOWER_LIMIT :: "int option"
  env_GET_BYTECODE_RETRY_PAUSE :: "int option"
  env_GET_BLOCK_PAUSE :: "int option"
  env_INITIAL_GET_BYTECODE_TRIES :: "int option"

text \<open>\<open>parseInt(v) || d\<close>: the default replaces \<open>NaN\<close> and \<open>0\<close>, the falsy numbers.\<close>

definition parseInt_or :: "int option \<Rightarrow> 'a \<Rightarrow> 'a::ring_1" where
  "parseInt_or v d = (case v of None \<Rightarrow> d | Some n \<Rightarrow> if n = 0 then d else of_int n)"

definition BLOCK_PAUSE_FACTOR :: "process_env \<Rightarrow> rat" where
  "BLOCK_PAUSE_FACTOR env = parseInt_or (env_BLOCK_PAUSE_FACTOR env) (11 / 10)"

definition BLOCK_PAUSE_UPPER_LIMIT :: "process_env \<Rightarrow> rat" where
  "BLOCK_PAUSE_UPPER_LIMIT env = parseInt_or (env_BLOCK_PAUSE_UPPER_LIMIT env) (30 * 1000)"

definition BLOCK_PAUSE_LOWER_LIMIT :: "process_env \<Rightarrow> rat" where
  "BLOCK_PAUSE_LOWER_LIMIT env = parseInt_or (env_BLOCK_PAUSE_LOWER_LIMIT env) (1 / 2 * 1000)"

subsection \<open>Transactions and blocks\<close>

record transaction =
  tx_from :: string
  tx_nonce :: int
  tx_to :: "string option"

record block =
  transactions :: "transaction list"

text \<open>\<open>!tx.to\<close>: true when the recipient is \<open>null\<close> or the empty string.\<close>

definition createsContract :: "transaction \<Rightarrow> bool" where
  "createsContract tx = (case tx_to tx of None \<Rightarrow> True | Some s \<Rightarrow> s = [])"

subsection \<open>Collaborators\<close>

datatype 'a promise = Rejected string | Resolved 'a

text \<open>
  The library functions the monitor calls. \<open>ethers_getContractAddress\<close> and
  \<open>hexToBytes\<close> are called outside any \<open>try\<close>; \<open>cborDecode\<close>, \<open>fromCborData\<close> and
  \<open>assemble\<close> inside one. \<open>assemble\<close> returns \<open>Some message\<close> when it throws.
\<close>

record ('c, 's) externals =
  ethers_getContractAddress :: "string \<Rightarrow> int \<Rightarrow> string + string"
  hexToBytes :: "string \<Rightarrow> string + nat list"
  cborDecode :: "nat list \<Rightarrow> string + 'c"
  fromCborData :: "'c \<Rightarrow> string + 's"
  assemble :: "'s \<Rightarrow> string option"

text \<open>
  Modelled from the spec: \<open>ethers.utils.getContractAddress\<close> is a library function, absent
  from the sources. The spec has the deployed address "computed deterministically from
  the sender address and sender's transaction count at send time": the call reads the
  sender and the nonce of the transaction and nothing else.
\<close>

definition getContractAddress :: "('c, 's) externals \<Rightarrow> transaction \<Rightarrow> string + string" where
  "getContractAddress ext tx = ethers_getContractAddress ext (tx_from tx) (tx_nonce tx)"

subsection \<open>The monitor and what a handler does\<close>

record chain_monitor =
  chainId :: string
  running :: bool
  getBytecodeRetryPause :: rat
  getBlockPause :: rat
  initialGetBytecodeTries :: int

datatype timer_call = ProcessBlock int | ProcessBytecode string int

datatype 's action =
    GetBlock int
  | GetCode string
  | LogInfo string string
  | LogError string string
  | Call_processBytecode string int
  | SetTimeout timer_call rat
  | Assemble 's

text \<open>The constructor; the field \<open>running\<close> is left undefined, which is falsy.\<close>

definition ChainMonitor :: "process_env \<Rightarrow> string \<Rightarrow> chain_monitor" where
  "ChainMonitor env cid =
     \<lparr> chainId = cid,
       running = False,
       getBytecodeRetryPause = parseInt_or (env_GET_BYTECODE_RETRY_PAUSE env) (5 * 1000),
       getBlockPause = parseInt_or (env_GET_BLOCK_PAUSE env) (10 * 1000),
       initialGetBytecodeTries = parseInt_or (env_INITIAL_GET_BYTECODE_TRIES env) 3 \<rparr>"

text \<open>
  \<open>start\<close> sets the flag and chooses the first block: the parsed \<open>MONITOR_START_<chainId>\<close>
  when the variable is set, the provider's block number otherwise.
\<close>

definition start :: "int option \<Rightarrow> int \<Rightarrow> chain_monitor \<Rightarrow> chain_monitor \<times> int" where
  "start rawStartBlock head m =
     (m\<lparr>running := True\<rparr>, case rawStartBlock of Some n \<Rightarrow> n | None \<Rightarrow> head)"

definition stop :: "chain_monitor \<Rightarrow> chain_monitor" where
  "stop m = m\<lparr>running := False\<rparr>"

definition mySetTimeout :: "chain_monitor \<Rightarrow> timer_call \<Rightarrow> rat \<Rightarrow> 's action list" where
  "mySetTimeout m handler timeout = (if running m then [SetTimeout handler timeout] else [])"

subsection \<open>\<open>processBlock\<close>\<close>

text \<open>
  The \<open>for\<close> loop over the transactions of a block (lines 80 to 85). It returns the calls
  of \<open>processBytecode\<close> made, in order, and the exception that ended the loop, if any.
\<close>

fun scanTransactions ::
  "('c, 's) externals \<Rightarrow> int \<Rightarrow> transaction list \<Rightarrow> (string \<times> int) list \<times> string option" where
  "scanTransactions ext tries [] = ([], None)"
| "scanTransactions ext tries (tx # txs) =
     (if createsContract tx then
        (case getContractAddress ext tx of
           Inl err \<Rightarrow> ([], Some err)
         | Inr address \<Rightarrow>
             (case scanTransactions ext tries txs of
                (calls, thrown) \<Rightarrow> ((address, tries) # calls, thrown)))
      else scanTransactions ext tries txs)"

text \<open>
  \<open>processBlock m blockNumber r\<close>: the request for the block, then what the promise chain
  does once the request has settled with \<open>r\<close>, on the monitor \<open>m\<close> as it is at that time.
  The result is the monitor, the variable \<open>blockNumber\<close> of the closure and the actions.
\<close>

definition processBlock ::
  "process_env \<Rightarrow> ('c, 's) externals \<Rightarrow> chain_monitor \<Rightarrow> int \<Rightarrow> block option promise
   \<Rightarrow> chain_monitor \<times> int \<times> 's action list" where
  "processBlock env ext m blockNumber r =
     (case r of
        Rejected err \<Rightarrow>
          (m, blockNumber,
           GetBlock blockNumber # LogError ''[PROCESS_BLOCK:FAILED]'' err
             # mySetTimeout m (ProcessBlock blockNumber) (getBlockPause m))
      | Resolved None \<Rightarrow>
          (let m1 = m\<lparr>getBlockPause := getBlockPause m * BLOCK_PAUSE_FACTOR env\<rparr>;
               m2 = m1\<lparr>getBlockPause := min (getBlockPause m1) (BLOCK_PAUSE_UPPER_LIMIT env)\<rparr>
           in (m2, blockNumber,
               GetBlock blockNumber # LogInfo ''[PROCESS_BLOCK]'' ''Waiting for new blocks''
                 # mySetTimeout m2 (ProcessBlock blockNumber) (getBlockPause m2)))
      | Resolved (Some b) \<Rightarrow>
          (let m1 = m\<lparr>getBlockPause := getBlockPause m / BLOCK_PAUSE_FACTOR env\<rparr>;
               m2 = m1\<lparr>getBlockPause := max (getBlockPause m1) (BLOCK_PAUSE_LOWER_LIMIT env)\<rparr>
           in (case scanTransactions ext (initialGetBytecodeTries m2) (transactions b) of
                 (calls, Some err) \<Rightarrow>
                   (m2, blockNumber,
                    GetBlock blockNumber # map (\<lambda>(a, n). Call_processBytecode a n) calls
                      @ LogError ''[PROCESS_BLOCK:FAILED]'' err
                      # mySetTimeout m2 (ProcessBlock blockNumber) (getBlockPause m2))
               | (calls, None) \<Rightarrow>
                   (m2, blockNumber + 1,
                    GetBlock blockNumber # map (\<lambda>(a, n). Call_processBytecode a n) calls
                      @ mySetTimeout m2 (ProcessBlock (blockNumber + 1)) (getBlockPause m2)))))"

subsection \<open>\<open>processBytecode\<close>\<close>

text \<open>The \<open>try\<close> block of lines 109 to 124: every exception in it is logged and swallowed.\<close>

definition tryAssemble :: "('c, 's) externals \<Rightarrow> nat list \<Rightarrow> 's action list" where
  "tryAssemble ext numericBytecode =
     (case cborDecode ext numericBytecode of
        Inl err \<Rightarrow> [LogError ''[GET_BYTECODE:METADATA_READING]'' err]
      | Inr cborData \<Rightarrow>
          (case fromCborData ext cborData of
             Inl err \<Rightarrow> [LogError ''[GET_BYTECODE:METADATA_READING]'' err]
           | Inr metadataAddress \<Rightarrow>
               (case assemble ext metadataAddress of
                  Some err \<Rightarrow> [LogError ''[GET_BYTECODE:METADATA_READING]'' err]
                | None \<Rightarrow> [Assemble metadataAddress])))"

text \<open>
  \<open>processBytecode m address retriesLeft r\<close>: the test \<open>retriesLeft-- <= 0\<close>, then the
  request for the code and what follows once it has settled with \<open>r\<close>. The result \<open>r\<close> is
  not read when the call returns at the test.
\<close>

definition processBytecode ::
  "('c, 's) externals \<Rightarrow> chain_monitor \<Rightarrow> string \<Rightarrow> int \<Rightarrow> string promise \<Rightarrow> 's action list" where
  "processBytecode ext m address retriesLeft r =
     (if retriesLeft \<le> 0 then []
      else
        (let retriesLeft1 = retriesLeft - 1 in
         GetCode address #
         (case r of
            Rejected err \<Rightarrow>
              LogError ''[GET_BYTECODE]'' err
                # mySetTimeout m (ProcessBytecode address retriesLeft1) (getBytecodeRetryPause m)
          | Resolved bytecode \<Rightarrow>
              (if bytecode = ''0x'' then
                 LogInfo ''[PROCESS_BYTECODE]'' ''Empty bytecode''
                   # mySetTimeout m (ProcessBytecode address retriesLeft1) (getBytecodeRetryPause m)
               else
                 (case hexToBytes ext bytecode of
                    Inl err \<Rightarrow>
                      LogError ''[GET_BYTECODE]'' err
                        # mySetTimeout m (ProcessBytecode address retriesLeft1)
                            (getBytecodeRetryPause m)
                  | Inr numericBytecode \<Rightarrow> tryAssemble ext numericBytecode)))))"

subsection \<open>Following the timers\<close>

fun timers :: "'s action list \<Rightarrow> (timer_call \<times> rat) list" where
  "timers [] = []"
| "timers (SetTimeout handler timeout # acts) = (handler, timeout) # timers acts"
| "timers (_ # acts) = timers acts"

fun polled :: "'s action list \<Rightarrow> int list" where
  "polled [] = []"
| "polled (GetBlock n # acts) = n # polled acts"
| "polled (_ # acts) = polled acts"

fun fetchAttempts :: "'s action list \<Rightarrow> nat" where
  "fetchAttempts [] = 0"
| "fetchAttempts (GetCode a # acts) = Suc (fetchAttempts acts)"
| "fetchAttempts (_ # acts) = fetchAttempts acts"

fun dispatched :: "'s action list \<Rightarrow> (string \<times> int) list" where
  "dispatched [] = []"
| "dispatched (Call_processBytecode a n # acts) = (a, n) # dispatched acts"
| "dispatched (_ # acts) = dispatched acts"

text \<open>
  The polling loop of one monitor. The loop has no end of its own, so it is run against a
  finite list of events: \<open>Settled r\<close>, the pending request for a block settles with \<open>r\<close>
  (after its timer, if any, has fired); \<open>StopCalled\<close>, somebody calls \<open>stop\<close>. The next
  request is the one the handler passed to \<open>setTimeout\<close>; without a timer the loop is over.
\<close>

datatype poll_event = StopCalled | Settled "block option promise"

fun pollLoop ::
  "process_env \<Rightarrow> ('c, 's) externals \<Rightarrow> chain_monitor \<Rightarrow> int \<Rightarrow> poll_event list
   \<Rightarrow> chain_monitor \<times> 's action list" where
  "pollLoop env ext m blockNumber [] = (m, [])"
| "pollLoop env ext m blockNumber (StopCalled # es) = pollLoop env ext (stop m) blockNumber es"
| "pollLoop env ext m blockNumber (Settled r # es) =
     (case processBlock env ext m blockNumber r of
        (m1, _, acts) \<Rightarrow>
          (case timers acts of
             (ProcessBlock next, _) # _ \<Rightarrow>
               (case pollLoop env ext m1 next es of (m2, acts2) \<Rightarrow> (m2, acts @ acts2))
           | _ \<Rightarrow> (m1, acts)))"

text \<open>
  The retries for one candidate address. The \<open>k\<close>-th request for the code settles with
  \<open>resp k\<close>, on the monitor \<open>mon k\<close> as it is then (\<open>stop\<close> may have been called in between).
  The next call is the one passed to \<open>setTimeout\<close>.
\<close>

function retryLoop ::
  "('c, 's) externals \<Rightarrow> (nat \<Rightarrow> chain_monitor) \<Rightarrow> (nat \<Rightarrow> string promise) \<Rightarrow> nat
   \<Rightarrow> string \<Rightarrow> int \<Rightarrow> 's action list" where
  "retryLoop ext mon resp k address retriesLeft =
     (case timers (processBytecode ext (mon k) address retriesLeft (resp k)) of
        (ProcessBytecode a n, _) # _ \<Rightarrow>
          processBytecode ext (mon k) address retriesLeft (resp k)
            @ retryLoop ext mon resp (Suc k) a n
      | _ \<Rightarrow> processBytecode ext (mon k) address retriesLeft (resp k))"
  by pat_completeness auto

subsection \<open>Where the arithmetic of the program is exact\<close>

text \<open>
  The program computes with binary64 numbers: a product or quotient is rounded to the
  nearest one. The result is exact when the operands and the result are safe integers
  (\<open>Number.isSafeInteger\<close>: an integer of absolute value at most \<open>2^53 - 1\<close>). The
  formulas of C2 and C3 for the value of a pause are stated for safe integers; bounds and
  comparisons are stated for every input, since rounding to the nearest number keeps the
  order. The default factor 1.1 is the rational 11/10 here and the binary64 number nearest
  to it in the program; it is not a safe integer, a factor read from the environment is an
  integer.
\<close>

definition isSafeInteger :: "rat \<Rightarrow> bool" where
  "isSafeInteger x = (of_int \<lfloor>x\<rfloor> = x \<and> \<bar>x\<bar> \<le> 2 ^ 53 - 1)"

subsection \<open>Example inputs\<close>

text \<open>
  Concrete inputs on which the theorems below are instantiated: the environment with no
  variable set, the one with \<open>BLOCK_PAUSE_FACTOR=2\<close>, a small stand-in for the libraries
  (an address is the sender followed by one \<open>+\<close> per nonce, and a sender that is empty
  makes the derivation throw; decoding fails on fewer than four bytes), a monitor that was
  started, and three transactions.
\<close>

definition noVariables :: process_env where
  "noVariables =
     \<lparr> env_BLOCK_PAUSE_FACTOR = None, env_BLOCK_PAUSE_UPPER_LIMIT = None,
       env_BLOCK_PAUSE_LOWER_LIMIT = None, env_GET_BYTECODE_RETRY_PAUSE = None,
       env_GET_BLOCK_PAUSE = None, env_INITIAL_GET_BYTECODE_TRIES = None \<rparr>"

definition toyLibrary :: "(nat list, nat list) externals" where
  "toyLibrary =
     \<lparr> ethers_getContractAddress =
         (\<lambda>sender nonce. if sender = [] then Inl ''missing from address''
            else Inr (sender @ replicate (nat nonce) CHR ''+'')),
       hexToBytes =
         (\<lambda>hex. if take 2 hex = ''0x'' then Inr (map of_char (drop 2 hex))
            else Inl ''not a valid hex string''),
       cborDecode =
         (\<lambda>bytes. if length bytes < 4 then Inl ''unexpected end of CBOR data'' else Inr bytes),
       fromCborData = (\<lambda>cborData. Inr cborData),
       assemble = (\<lambda>metadataAddress. None) \<rparr>"

definition factorTwo :: process_env where
  "factorTwo = noVariables\<lparr>env_BLOCK_PAUSE_FACTOR := Some 2\<rparr>"

definition startedMonitor :: chain_monitor where
  "startedMonitor = fst (start (Some 100) 0 (ChainMonitor noVariables ''1''))"

definition deployTx :: transaction where
  "deployTx = \<lparr> tx_from = ''0xabc'', tx_nonce = 2, tx_to = None \<rparr>"

definition brokenTx :: transaction where
  "brokenTx = \<lparr> tx_from = [], tx_nonce = 0, tx_to = None \<rparr>"

definition transferTx :: transaction where
  "transferTx = \<lparr> tx_from = ''0xabc'', tx_nonce = 3, tx_to = Some ''0xdef'' \<rparr>"

section \<open>Properties\<close>

lemma timers_append: "timers (xs @ ys) = timers xs @ timers ys"
  by (induction xs rule: timers.induct) auto

lemma timers_mySetTimeout:
  "timers (mySetTimeout m h t) = (if running m then [(h, t)] else [])"
  by (simp add: mySetTimeout_def)

lemma timers_calls: "timers (map (\<lambda>(a, n). Call_processBytecode a n) cs) = []"
  by (induction cs) auto

lemma timers_tryAssemble: "timers (tryAssemble ext bs) = []"
  by (simp add: tryAssemble_def split: sum.splits option.splits)

lemma timers_processBytecode:
  "timers (processBytecode ext m address retriesLeft r) = (h, t) # rest \<Longrightarrow>
   0 < retriesLeft \<and> running m \<and> h = ProcessBytecode address (retriesLeft - 1)
     \<and> t = getBytecodeRetryPause m \<and> rest = []"
  by (auto simp: processBytecode_def Let_def timers_mySetTimeout timers_tryAssemble
      split: if_splits promise.splits sum.splits)

termination retryLoop
  by (relation "measure (\<lambda>(ext, mon, resp, k, address, retriesLeft). nat retriesLeft)")
    (auto dest!: timers_processBytecode)

lemma polled_append: "polled (xs @ ys) = polled xs @ polled ys"
  by (induction xs rule: polled.induct) auto

lemma dispatched_append: "dispatched (xs @ ys) = dispatched xs @ dispatched ys"
  by (induction xs rule: dispatched.induct) auto

lemma fetchAttempts_append: "fetchAttempts (xs @ ys) = fetchAttempts xs + fetchAttempts ys"
  by (induction xs rule: fetchAttempts.induct) auto

lemma polled_calls: "polled (map (\<lambda>(a, n). Call_processBytecode a n) cs) = []"
  by (induction cs) auto

lemma dispatched_calls: "dispatched (map (\<lambda>(a, n). Call_processBytecode a n) cs) = cs"
  by (induction cs) auto

lemma polled_mySetTimeout: "polled (mySetTimeout m h t) = []"
  by (simp add: mySetTimeout_def)

lemma dispatched_mySetTimeout: "dispatched (mySetTimeout m h t) = []"
  by (simp add: mySetTimeout_def)

text \<open>What one call of \<open>processBlock\<close> does, case by case.\<close>

lemma processBlock_Rejected:
  "processBlock env ext m h (Rejected err) =
     (m, h, GetBlock h # LogError ''[PROCESS_BLOCK:FAILED]'' err
              # mySetTimeout m (ProcessBlock h) (getBlockPause m))"
  by (simp add: processBlock_def)

lemma processBlock_miss:
  "processBlock env ext m h (Resolved None) =
     (m\<lparr>getBlockPause := min (getBlockPause m * BLOCK_PAUSE_FACTOR env) (BLOCK_PAUSE_UPPER_LIMIT env)\<rparr>,
      h,
      GetBlock h # LogInfo ''[PROCESS_BLOCK]'' ''Waiting for new blocks''
        # mySetTimeout m (ProcessBlock h)
            (min (getBlockPause m * BLOCK_PAUSE_FACTOR env) (BLOCK_PAUSE_UPPER_LIMIT env)))"
  by (simp add: processBlock_def Let_def mySetTimeout_def)

lemma processBlock_thrown:
  "scanTransactions ext (initialGetBytecodeTries m) (transactions b) = (calls, Some err) \<Longrightarrow>
   processBlock env ext m h (Resolved (Some b)) =
     (m\<lparr>getBlockPause := max (getBlockPause m / BLOCK_PAUSE_FACTOR env) (BLOCK_PAUSE_LOWER_LIMIT env)\<rparr>,
      h,
      GetBlock h # map (\<lambda>(a, n). Call_processBytecode a n) calls
        @ LogError ''[PROCESS_BLOCK:FAILED]'' err
        # mySetTimeout m (ProcessBlock h)
            (max (getBlockPause m / BLOCK_PAUSE_FACTOR env) (BLOCK_PAUSE_LOWER_LIMIT env)))"
  by (simp add: processBlock_def Let_def mySetTimeout_def)

lemma processBlock_scanned:
  "scanTransactions ext (initialGetBytecodeTries m) (transactions b) = (calls, None) \<Longrightarrow>
   processBlock env ext m h (Resolved (Some b)) =
     (m\<lparr>getBlockPause := max (getBlockPause m / BLOCK_PAUSE_FACTOR env) (BLOCK_PAUSE_LOWER_LIMIT env)\<rparr>,
      h + 1,
      GetBlock h # map (\<lambda>(a, n). Call_processBytecode a n) calls
        @ mySetTimeout m (ProcessBlock (h + 1))
            (max (getBlockPause m / BLOCK_PAUSE_FACTOR env) (BLOCK_PAUSE_LOWER_LIMIT env)))"
  by (simp add: processBlock_def Let_def mySetTimeout_def)

text \<open>
  Every call leaves the flag alone, keeps the height or adds one, requests the block once and
  sets at most one timer, for the height and the pause it leaves.
\<close>

lemma processBlock_shape:
  assumes "processBlock env ext m h r = (m1, h1, acts)"
  shows "running m1 = running m \<and> (h1 = h \<or> h1 = h + 1)
     \<and> timers acts = (if running m then [(ProcessBlock h1, getBlockPause m1)] else [])
     \<and> polled acts = [h]"
proof (cases r)
  case (Rejected err)
  with assms show ?thesis
    by (auto simp: processBlock_Rejected timers_mySetTimeout polled_mySetTimeout)
next
  case (Resolved ob)
  show ?thesis
  proof (cases ob)
    case None
    with Resolved assms show ?thesis
      by (auto simp: processBlock_miss timers_mySetTimeout polled_mySetTimeout)
  next
    case (Some b)
    obtain calls thrown where s:
      "scanTransactions ext (initialGetBytecodeTries m) (transactions b) = (calls, thrown)"
      by (cases "scanTransactions ext (initialGetBytecodeTries m) (transactions b)")
    show ?thesis
    proof (cases thrown)
      case None
      with s Some Resolved assms show ?thesis
        by (auto simp: processBlock_scanned timers_append timers_calls timers_mySetTimeout
            polled_append polled_calls polled_mySetTimeout)
    next
      case (Some err)
      with s \<open>ob = Some b\<close> Resolved assms show ?thesis
        by (auto simp: processBlock_thrown timers_append timers_calls timers_mySetTimeout
            polled_append polled_calls polled_mySetTimeout)
    qed
  qed
qed


lemma pollLoop_Settled:
  assumes "processBlock env ext m h r = (m1, h1, acts)"
  shows "pollLoop env ext m h (Settled r # es) =
     (if running m then (case pollLoop env ext m1 h1 es of (m2, acts2) \<Rightarrow> (m2, acts @ acts2))
      else (m1, acts))"
  using processBlock_shape [OF assms] assms by simp

declare pollLoop.simps(3) [simp del]

lemma pollLoop_polled:
  "polled (snd (pollLoop env ext m h es)) = hs \<Longrightarrow>
   sorted hs \<and> successively (\<lambda>a b. b = a \<or> b = a + 1) hs \<and> (\<forall>x\<in>set hs. h \<le> x)
     \<and> (hs = [] \<or> hd hs = h)"
proof (induction es arbitrary: m h hs)
  case Nil
  then show ?case by auto
next
  case (Cons e es)
  show ?case
  proof (cases e)
    case StopCalled
    with Cons.prems have "polled (snd (pollLoop env ext (stop m) h es)) = hs" by simp
    then show ?thesis by (rule Cons.IH)
  next
    case (Settled r)
    obtain m1 h1 acts where pb: "processBlock env ext m h r = (m1, h1, acts)"
      by (cases "processBlock env ext m h r")
    note sh = processBlock_shape [OF pb]
    show ?thesis
    proof (cases "running m")
      case False
      with Cons.prems Settled pb sh show ?thesis
        by (auto simp: pollLoop_Settled [OF pb])
    next
      case True
      define hs1 where "hs1 = polled (snd (pollLoop env ext m1 h1 es))"
      have ih: "sorted hs1 \<and> successively (\<lambda>a b. b = a \<or> b = a + 1) hs1
          \<and> (\<forall>x\<in>set hs1. h1 \<le> x) \<and> (hs1 = [] \<or> hd hs1 = h1)"
        using Cons.IH [of m1 h1 hs1] hs1_def by simp
      have hs: "hs = h # hs1"
        using Cons.prems Settled True sh hs1_def
        by (simp add: pollLoop_Settled [OF pb] polled_append split: prod.splits)
      have step: "h1 = h \<or> h1 = h + 1" using sh by simp
      then have "\<forall>x\<in>set hs1. h \<le> x" using ih by force
      moreover have "successively (\<lambda>a b. b = a \<or> b = a + 1) (h # hs1)"
        using ih step by (auto simp: successively_Cons)
      ultimately show ?thesis using ih hs by simp
    qed
  qed
qed

lemma grow_clamp:
  fixes d f u :: rat
  assumes "1 \<le> f" "0 \<le> u"
  shows "min (min (d * f) u * f ^ k) u = min (d * f ^ Suc k) u"
proof -
  have p: "1 \<le> f ^ k" using assms(1) by (rule one_le_power)
  then have "u * 1 \<le> u * f ^ k" using assms(2) by (intro mult_left_mono) auto
  then have "u \<le> u * f ^ k" by simp
  moreover have "min (d * f) u * f ^ k = min (d * f * f ^ k) (u * f ^ k)"
    using p by (simp add: min_mult_distrib_right)
  ultimately show ?thesis by (simp add: mult.assoc min_def)
qed

lemma pollLoop_misses:
  assumes "1 \<le> BLOCK_PAUSE_FACTOR env" "0 \<le> BLOCK_PAUSE_UPPER_LIMIT env"
  shows "running m \<Longrightarrow>
    pollLoop env ext m h (replicate (Suc n) (Settled (Resolved None))) = (m2, acts) \<Longrightarrow>
    getBlockPause m2 = min (getBlockPause m * BLOCK_PAUSE_FACTOR env ^ Suc n) (BLOCK_PAUSE_UPPER_LIMIT env)
    \<and> timers acts = map (\<lambda>i. (ProcessBlock h,
          min (getBlockPause m * BLOCK_PAUSE_FACTOR env ^ i) (BLOCK_PAUSE_UPPER_LIMIT env))) [1..<Suc (Suc n)]
    \<and> polled acts = replicate (Suc n) h"
proof (induction n arbitrary: m m2 acts)
  case 0
  then show ?case
    by (auto simp: pollLoop_Settled [OF processBlock_miss] mySetTimeout_def)
next
  case (Suc n)
  let ?m1 = "m\<lparr>getBlockPause := min (getBlockPause m * BLOCK_PAUSE_FACTOR env) (BLOCK_PAUSE_UPPER_LIMIT env)\<rparr>"
  obtain m3 acts3 where rest:
    "pollLoop env ext ?m1 h (replicate (Suc n) (Settled (Resolved None))) = (m3, acts3)"
    by (cases "pollLoop env ext ?m1 h (replicate (Suc n) (Settled (Resolved None)))")
  have r1: "running ?m1" using Suc.prems(1) by simp
  note ih = Suc.IH [OF r1 rest]
  have whole: "m2 = m3" "acts = [GetBlock h, LogInfo ''[PROCESS_BLOCK]'' ''Waiting for new blocks'',
      SetTimeout (ProcessBlock h) (getBlockPause ?m1)] @ acts3"
    using Suc.prems rest
    by (simp_all add: pollLoop_Settled [OF processBlock_miss] mySetTimeout_def)
  have shift: "[1..<Suc (Suc (Suc n))] = 1 # map Suc [1..<Suc (Suc n)]"
    by (metis One_nat_def Suc_le_mono map_Suc_upt upt_conv_Cons le0 less_Suc_eq_le)
  show ?case
    using ih whole shift
    by (simp add: grow_clamp [OF assms] comp_def del: upt_Suc power_Suc)
qed

lemma fetchAttempts_mySetTimeout: "fetchAttempts (mySetTimeout m h t) = 0"
  by (simp add: mySetTimeout_def)

lemma fetchAttempts_tryAssemble: "fetchAttempts (tryAssemble ext bs) = 0"
  by (simp add: tryAssemble_def split: sum.splits option.splits)

lemma fetchAttempts_processBytecode:
  "fetchAttempts (processBytecode ext m address retriesLeft r) = (if 0 < retriesLeft then 1 else 0)"
  by (simp add: processBytecode_def Let_def fetchAttempts_mySetTimeout fetchAttempts_tryAssemble
      split: promise.splits sum.splits)

declare retryLoop.simps [simp del]

lemma retryLoop_attempts:
  "fetchAttempts (retryLoop ext mon resp k address retriesLeft) \<le> nat retriesLeft"
proof (induction ext mon resp k address retriesLeft rule: retryLoop.induct)
  case (1 ext mon resp k address retriesLeft)
  let ?acts = "processBytecode ext (mon k) address retriesLeft (resp k)"
  show ?case
  proof (cases "timers ?acts")
    case Nil
    then have "retryLoop ext mon resp k address retriesLeft = ?acts"
      by (simp add: retryLoop.simps [of ext mon resp k address retriesLeft])
    then show ?thesis
      by (auto simp: fetchAttempts_processBytecode)
  next
    case (Cons p rest)
    obtain c t where p: "p = (c, t)" by (cases p)
    from timers_processBytecode [of ext "mon k" address retriesLeft "resp k" c t rest] Cons p
    have f: "0 < retriesLeft" "c = ProcessBytecode address (retriesLeft - 1)" by simp_all
    have "fetchAttempts (retryLoop ext mon resp (Suc k) address (retriesLeft - 1))
        \<le> nat (retriesLeft - 1)"
      using "1.IH" [of p rest c t address "retriesLeft - 1"] Cons p f by simp
    moreover have "retryLoop ext mon resp k address retriesLeft =
        ?acts @ retryLoop ext mon resp (Suc k) address (retriesLeft - 1)"
      using Cons p f by (simp add: retryLoop.simps [of ext mon resp k address retriesLeft])
    ultimately show ?thesis
      using f by (auto simp: fetchAttempts_append fetchAttempts_processBytecode)
  qed
qed

lemma retryLoop_dropped: "retriesLeft \<le> 0 \<Longrightarrow> retryLoop ext mon resp k address retriesLeft = []"
  by (simp add: retryLoop.simps [of ext mon resp k address retriesLeft] processBytecode_def)

lemma processBytecode_retry:
  assumes "0 < retriesLeft" and "r = Rejected err \<or> r = Resolved ''0x''"
  shows "processBytecode ext m address retriesLeft r =
     GetCode address
       # (case r of Rejected e \<Rightarrow> LogError ''[GET_BYTECODE]'' e
          | Resolved c \<Rightarrow> LogInfo ''[PROCESS_BYTECODE]'' ''Empty bytecode'')
       # mySetTimeout m (ProcessBytecode address (retriesLeft - 1)) (getBytecodeRetryPause m)"
  using assms by (auto simp: processBytecode_def Let_def)

lemma noVariables_constants:
  "BLOCK_PAUSE_FACTOR noVariables = 11 / 10"
  "BLOCK_PAUSE_UPPER_LIMIT noVariables = 30000"
  "BLOCK_PAUSE_LOWER_LIMIT noVariables = 500"
  by (simp_all add: BLOCK_PAUSE_FACTOR_def BLOCK_PAUSE_UPPER_LIMIT_def BLOCK_PAUSE_LOWER_LIMIT_def
      noVariables_def parseInt_or_def)

lemma startedMonitor_fields:
  "running startedMonitor" "getBlockPause startedMonitor = 10000"
  "getBytecodeRetryPause startedMonitor = 5000" "initialGetBytecodeTries startedMonitor = 3"
  by (simp_all add: startedMonitor_def start_def ChainMonitor_def noVariables_def parseInt_or_def)

lemma processBlock_pause:
  "getBlockPause (fst (processBlock env ext m h r)) =
     (case r of
        Rejected err \<Rightarrow> getBlockPause m
      | Resolved None \<Rightarrow>
          min (getBlockPause m * BLOCK_PAUSE_FACTOR env) (BLOCK_PAUSE_UPPER_LIMIT env)
      | Resolved (Some b) \<Rightarrow>
          max (getBlockPause m / BLOCK_PAUSE_FACTOR env) (BLOCK_PAUSE_LOWER_LIMIT env))"
  by (simp add: processBlock_def Let_def split: promise.splits option.splits prod.splits)

lemma processBlock_bounds:
  fixes env m
  defines "F \<equiv> BLOCK_PAUSE_FACTOR env" and "L \<equiv> BLOCK_PAUSE_LOWER_LIMIT env"
    and "U \<equiv> BLOCK_PAUSE_UPPER_LIMIT env"
  assumes "1 \<le> F" and "0 \<le> L" and "L \<le> getBlockPause m" and "getBlockPause m \<le> U"
  shows "L \<le> getBlockPause (fst (processBlock env ext m h r))
       \<and> getBlockPause (fst (processBlock env ext m h r)) \<le> U"
proof -
  let ?d = "getBlockPause m"
  have d0: "0 \<le> ?d" using assms by linarith
  have up: "?d \<le> ?d * F" using d0 \<open>1 \<le> F\<close> by (simp add: mult_le_cancel_left1)
  have down: "?d / F \<le> ?d" using d0 \<open>1 \<le> F\<close> by (simp add: divide_le_eq mult_le_cancel_left1)
  show ?thesis
    using assms(4-7) up down
    by (auto simp: processBlock_pause F_def L_def U_def split: promise.splits option.splits)
qed

lemma pollLoop_bounds:
  assumes "1 \<le> BLOCK_PAUSE_FACTOR env" and "0 \<le> BLOCK_PAUSE_LOWER_LIMIT env"
  shows "BLOCK_PAUSE_LOWER_LIMIT env \<le> getBlockPause m \<Longrightarrow>
    getBlockPause m \<le> BLOCK_PAUSE_UPPER_LIMIT env \<Longrightarrow>
    BLOCK_PAUSE_LOWER_LIMIT env \<le> getBlockPause (fst (pollLoop env ext m h es))
    \<and> getBlockPause (fst (pollLoop env ext m h es)) \<le> BLOCK_PAUSE_UPPER_LIMIT env"
proof (induction es arbitrary: m h)
  case Nil
  then show ?case by simp
next
  case (Cons e es)
  show ?case
  proof (cases e)
    case StopCalled
    have "getBlockPause (stop m) = getBlockPause m" by (simp add: stop_def)
    with Cons.IH [of "stop m" h] Cons.prems StopCalled show ?thesis by simp
  next
    case (Settled r)
    obtain m1 h1 acts where pb: "processBlock env ext m h r = (m1, h1, acts)"
      by (cases "processBlock env ext m h r")
    have b1: "BLOCK_PAUSE_LOWER_LIMIT env \<le> getBlockPause m1"
      "getBlockPause m1 \<le> BLOCK_PAUSE_UPPER_LIMIT env"
      using processBlock_bounds [OF assms Cons.prems, of ext h r] pb by simp_all
    show ?thesis
      using Cons.IH [OF b1, of h1] b1 Settled
      by (auto simp: pollLoop_Settled [OF pb] split: prod.splits)
  qed
qed

lemma processBlock_height:
  "fst (snd (processBlock env ext m h r)) =
     (case r of
        Rejected err \<Rightarrow> h
      | Resolved None \<Rightarrow> h
      | Resolved (Some b) \<Rightarrow>
          (if snd (scanTransactions ext (initialGetBytecodeTries m) (transactions b)) = None
           then h + 1 else h))"
  by (simp add: processBlock_def Let_def split: promise.splits option.splits prod.splits)

lemma processBlock_timers:
  "timers (snd (snd (processBlock env ext m h r))) =
     (if running m
      then [(ProcessBlock (fst (snd (processBlock env ext m h r))),
             getBlockPause (fst (processBlock env ext m h r)))]
      else [])"
  using processBlock_shape [of env ext m h r] by (cases "processBlock env ext m h r") simp

lemma scan_examples:
  "scanTransactions toyLibrary 3 [deployTx, brokenTx] = ([(''0xabc++'', 3)], Some ''missing from address'')"
  "scanTransactions toyLibrary 3 [deployTx, transferTx] = ([(''0xabc++'', 3)], None)"
  "scanTransactions toyLibrary 3 [brokenTx] = ([], Some ''missing from address'')"
  "scanTransactions toyLibrary 3 [transferTx] = ([], None)"
  by (simp_all add: createsContract_def getContractAddress_def toyLibrary_def deployTx_def
      brokenTx_def transferTx_def numeral_2_eq_2)

lemma shrink_strict:
  fixes d f l :: rat
  assumes "1 < f" and "0 \<le> l" and "l < d"
  shows "max (d / f) l < d"
proof -
  have "0 < d" using assms by linarith
  then have "d / f < d" using assms(1) by (simp add: divide_less_eq mult_less_cancel_left1)
  with assms(3) show ?thesis by simp
qed

lemma pollLoop_twice:
  assumes "running m" and "processBlock env ext m h r = (m1, h1, acts1)"
    and "processBlock env ext m1 h1 r2 = (m2, h2, acts2)"
  shows "pollLoop env ext m h [Settled r, Settled r2] = (m2, acts1 @ acts2)"
  using assms processBlock_shape [OF assms(2)]
  by (simp add: pollLoop_Settled [OF assms(2)] pollLoop_Settled [OF assms(3)])

lemma pollLoop_example:
  "polled (snd (pollLoop noVariables toyLibrary startedMonitor 100
     [Settled (Resolved (Some \<lparr>transactions = [deployTx, transferTx]\<rparr>)),
      Settled (Resolved None), Settled (Rejected ''timeout''),
      Settled (Resolved (Some \<lparr>transactions = [brokenTx]\<rparr>))])) = [100, 101, 101, 101]"
  by (simp add: pollLoop.simps(3) processBlock_def Let_def mySetTimeout_def scan_examples
      startedMonitor_fields del: scanTransactions.simps)

lemma processBytecode_code:
  assumes "0 < retriesLeft" and "bytecode \<noteq> ''0x''"
    and "hexToBytes ext bytecode = Inr numericBytecode"
  shows "processBytecode ext m address retriesLeft (Resolved bytecode) =
     GetCode address # tryAssemble ext numericBytecode"
  using assms by (simp add: processBytecode_def)

lemma retryLoop_no_timer:
  "timers (processBytecode ext (mon k) address retriesLeft (resp k)) = [] \<Longrightarrow>
   retryLoop ext mon resp k address retriesLeft =
     processBytecode ext (mon k) address retriesLeft (resp k)"
  by (simp add: retryLoop.simps [of ext mon resp k address retriesLeft])

lemma timers_processBytecode_stopped:
  "\<not> running m \<Longrightarrow> timers (processBytecode ext m address retriesLeft r) = []"
  using timers_processBytecode [of ext m address retriesLeft r]
  by (cases "timers (processBytecode ext m address retriesLeft r)") auto

lemma pollLoop_stopped:
  "\<not> running m \<Longrightarrow>
   timers (snd (pollLoop env ext m h es)) = [] \<and> \<not> running (fst (pollLoop env ext m h es))"
proof (induction es arbitrary: m)
  case Nil
  then show ?case by simp
next
  case (Cons e es)
  show ?case
  proof (cases e)
    case StopCalled
    with Cons.IH [of "stop m"] show ?thesis by (simp add: stop_def)
  next
    case (Settled r)
    obtain m1 h1 acts where pb: "processBlock env ext m h r = (m1, h1, acts)"
      by (cases "processBlock env ext m h r")
    with Cons.prems Settled processBlock_shape [OF pb] show ?thesis
      by (simp add: pollLoop_Settled [OF pb])
  qed
qed

lemma pollLoop_after_stop:
  "timers (snd (pollLoop env ext m h (es1 @ StopCalled # es2))) =
     timers (snd (pollLoop env ext m h es1))
   \<and> \<not> running (fst (pollLoop env ext m h (es1 @ StopCalled # es2)))"
proof (induction es1 arbitrary: m h)
  case Nil
  then show ?case
    using pollLoop_stopped [of "stop m" env ext h es2] by (simp add: stop_def)
next
  case (Cons e es1)
  show ?case
  proof (cases e)
    case StopCalled
    with Cons.IH [of "stop m" h] show ?thesis by simp
  next
    case (Settled r)
    obtain m1 h1 acts where pb: "processBlock env ext m h r = (m1, h1, acts)"
      by (cases "processBlock env ext m h r")
    show ?thesis
      using Cons.IH [of m1 h1] Settled processBlock_shape [OF pb]
      by (auto simp: pollLoop_Settled [OF pb] timers_append split: prod.splits)
  qed
qed

text \<open>
  \<open>hexToBytes\<close> is called before the \<open>try\<close> block: when it throws, the \<open>catch\<close> of the
  promise chain treats the exception as a failed request.
\<close>

lemma processBytecode_not_hex:
  assumes "0 < retriesLeft" and "bytecode \<noteq> ''0x''" and "hexToBytes ext bytecode = Inl err"
  shows "processBytecode ext m address retriesLeft (Resolved bytecode) =
     GetCode address # LogError ''[GET_BYTECODE]'' err
       # mySetTimeout m (ProcessBytecode address (retriesLeft - 1)) (getBytecodeRetryPause m)"
  using assms by (simp add: processBytecode_def)

lemma factorTwo_constants:
  "BLOCK_PAUSE_FACTOR factorTwo = 2"
  "BLOCK_PAUSE_UPPER_LIMIT factorTwo = 30000"
  "BLOCK_PAUSE_LOWER_LIMIT factorTwo = 500"
  by (simp_all add: BLOCK_PAUSE_FACTOR_def BLOCK_PAUSE_UPPER_LIMIT_def BLOCK_PAUSE_LOWER_LIMIT_def
      factorTwo_def noVariables_def parseInt_or_def)

lemma lower_limit_positive:
  "0 \<le> BLOCK_PAUSE_LOWER_LIMIT env \<Longrightarrow> 0 < BLOCK_PAUSE_LOWER_LIMIT env"
  by (auto simp: BLOCK_PAUSE_LOWER_LIMIT_def parseInt_or_def split: option.splits if_splits)

lemma pollLoop_miss_fst:
  "running m \<Longrightarrow>
   fst (pollLoop env ext m h (Settled (Resolved None) # es)) =
     fst (pollLoop env ext
       (m\<lparr>getBlockPause :=
            min (getBlockPause m * BLOCK_PAUSE_FACTOR env) (BLOCK_PAUSE_UPPER_LIMIT env)\<rparr>) h es)"
  by (simp add: pollLoop_Settled [OF processBlock_miss] split: prod.splits)

text \<open>A run of misses on a running monitor: what holds whatever the factor and the limit.\<close>

lemma pollLoop_misses_shape:
  "running m \<Longrightarrow>
   pollLoop env ext m h (replicate (Suc n) (Settled (Resolved None))) = (m2, acts) \<Longrightarrow>
   getBlockPause m2 \<le> BLOCK_PAUSE_UPPER_LIMIT env
   \<and> map fst (timers acts) = replicate (Suc n) (ProcessBlock h)
   \<and> snd (last (timers acts)) = getBlockPause m2
   \<and> polled acts = replicate (Suc n) h"
proof (induction n arbitrary: m m2 acts)
  case 0
  then show ?case
    by (auto simp: pollLoop_Settled [OF processBlock_miss] mySetTimeout_def)
next
  case (Suc n)
  let ?m1 = "m\<lparr>getBlockPause := min (getBlockPause m * BLOCK_PAUSE_FACTOR env) (BLOCK_PAUSE_UPPER_LIMIT env)\<rparr>"
  obtain m3 acts3 where rest:
    "pollLoop env ext ?m1 h (replicate (Suc n) (Settled (Resolved None))) = (m3, acts3)"
    by (cases "pollLoop env ext ?m1 h (replicate (Suc n) (Settled (Resolved None)))")
  have r1: "running ?m1" using Suc.prems(1) by simp
  note ih = Suc.IH [OF r1 rest]
  have whole: "m2 = m3" "acts = [GetBlock h, LogInfo ''[PROCESS_BLOCK]'' ''Waiting for new blocks'',
      SetTimeout (ProcessBlock h) (getBlockPause ?m1)] @ acts3"
    using Suc.prems rest
    by (simp_all add: pollLoop_Settled [OF processBlock_miss] mySetTimeout_def)
  have ne: "timers acts3 \<noteq> []" using ih by auto
  show ?case
    using ih whole ne by (simp add: timers_append)
qed

text \<open>With a factor of at least 1 and a limit that is not negative, misses do not lower the pause.\<close>

lemma pollLoop_misses_grow:
  assumes "1 \<le> BLOCK_PAUSE_FACTOR env" and "0 \<le> BLOCK_PAUSE_UPPER_LIMIT env"
  shows "running m \<Longrightarrow> 0 \<le> getBlockPause m \<Longrightarrow>
    min (getBlockPause m) (BLOCK_PAUSE_UPPER_LIMIT env)
      \<le> getBlockPause (fst (pollLoop env ext m h (replicate n (Settled (Resolved None)))))"
proof (induction n arbitrary: m)
  case 0
  then show ?case by simp
next
  case (Suc n)
  let ?F = "BLOCK_PAUSE_FACTOR env" and ?U = "BLOCK_PAUSE_UPPER_LIMIT env"
  let ?m1 = "m\<lparr>getBlockPause := min (getBlockPause m * ?F) ?U\<rparr>"
  have up: "getBlockPause m \<le> getBlockPause m * ?F"
    using Suc.prems(2) assms(1) by (simp add: mult_le_cancel_left1)
  have r1: "running ?m1" and p1: "0 \<le> getBlockPause ?m1"
    using Suc.prems assms(2) up by simp_all
  have "min (getBlockPause m) ?U \<le> min (getBlockPause ?m1) ?U"
    using up by simp
  also have "\<dots> \<le> getBlockPause (fst (pollLoop env ext ?m1 h (replicate n (Settled (Resolved None)))))"
    by (rule Suc.IH [OF r1 p1])
  finally show ?case
    using Suc.prems(1) by (simp add: pollLoop_miss_fst)
qed

lemma pollLoop_misses_strict:
  assumes "1 < BLOCK_PAUSE_FACTOR env" and "0 < getBlockPause m"
    and "getBlockPause m < BLOCK_PAUSE_UPPER_LIMIT env" and "running m"
  shows "getBlockPause m
    < getBlockPause (fst (pollLoop env ext m h (replicate (Suc n) (Settled (Resolved None)))))"
proof -
  let ?F = "BLOCK_PAUSE_FACTOR env" and ?U = "BLOCK_PAUSE_UPPER_LIMIT env"
  let ?m1 = "m\<lparr>getBlockPause := min (getBlockPause m * ?F) ?U\<rparr>"
  have "getBlockPause m < getBlockPause m * ?F"
    using assms(1,2) by (simp add: mult_less_cancel_left1)
  then have first: "getBlockPause m < getBlockPause ?m1" and p1: "0 \<le> getBlockPause ?m1"
    and le: "getBlockPause ?m1 \<le> ?U"
    using assms(2,3) by simp_all
  have "getBlockPause ?m1 = min (getBlockPause ?m1) ?U" using le by simp
  also have "\<dots> \<le> getBlockPause (fst (pollLoop env ext ?m1 h (replicate n (Settled (Resolved None)))))"
    using pollLoop_misses_grow [of env ?m1 ext h n] assms p1 by simp
  finally have rest: "getBlockPause ?m1
      \<le> getBlockPause (fst (pollLoop env ext ?m1 h (replicate n (Settled (Resolved None)))))" .
  from first rest have "getBlockPause m
      < getBlockPause (fst (pollLoop env ext ?m1 h (replicate n (Settled (Resolved None)))))"
    by (rule less_le_trans)
  then show ?thesis
    using assms(4) by (simp add: pollLoop_miss_fst)
qed

lemma scan_examples_thrown_first:
  "scanTransactions toyLibrary 3 [brokenTx, deployTx] = ([], Some ''missing from address'')"
  by (simp add: createsContract_def getContractAddress_def toyLibrary_def brokenTx_def)

text \<open>
  The calls the loop makes: one for each creation before the first whose derivation throws.
\<close>

lemma scanTransactions_calls:
  "fst (scanTransactions ext n txs) =
     map (\<lambda>t. (projr (getContractAddress ext t), n))
       (takeWhile (\<lambda>t. \<not> isl (getContractAddress ext t)) (filter createsContract txs))"
proof (induction txs)
  case Nil
  then show ?case by simp
next
  case (Cons t txs)
  show ?case
  proof (cases "createsContract t")
    case False
    with Cons show ?thesis by simp
  next
    case True
    show ?thesis
    proof (cases "getContractAddress ext t")
      case (Inl err)
      with True show ?thesis by simp
    next
      case (Inr a)
      with True Cons show ?thesis by (auto split: prod.splits)
    qed
  qed
qed

lemma processBlock_dispatched:
  "dispatched (snd (snd (processBlock env ext m h (Resolved (Some b))))) =
     fst (scanTransactions ext (initialGetBytecodeTries m) (transactions b))"
proof -
  obtain calls thrown where s:
    "scanTransactions ext (initialGetBytecodeTries m) (transactions b) = (calls, thrown)"
    by (cases "scanTransactions ext (initialGetBytecodeTries m) (transactions b)")
  show ?thesis
  proof (cases thrown)
    case None
    with s show ?thesis
      unfolding processBlock_scanned [OF s [unfolded None]]
      by (simp add: dispatched_append dispatched_calls dispatched_mySetTimeout)
  next
    case (Some err)
    with s show ?thesis
      unfolding processBlock_thrown [OF s [unfolded Some]]
      by (simp add: dispatched_append dispatched_calls dispatched_mySetTimeout)
  qed
qed

lemma shrink_to_lower:
  fixes d f l :: rat
  assumes "1 \<le> f" and "d \<le> l * f"
  shows "max (d / f) l = l"
proof -
  have "0 < f" using assms(1) by linarith
  then have "d / f \<le> l" using assms(2) by (simp add: divide_le_eq)
  then show ?thesis by simp
qed

section \<open>The claims\<close>

subsection \<open>C5: a failed request for a block\<close>

text \<open>
  Claim C5. If the provider's request for the block fails (the promise is rejected), the
  error is logged and the same height is scheduled again after the current pause, which the
  failure has neither grown nor shrunk. The timer is set when the monitor is running;
  nothing else happens.
\<close>

theorem C5_provider_error_keeps_delay:
  "processBlock env ext m blockNumber (Rejected err) =
     (m, blockNumber,
      [GetBlock blockNumber, LogError ''[PROCESS_BLOCK:FAILED]'' err]
        @ (if running m then [SetTimeout (ProcessBlock blockNumber) (getBlockPause m)] else []))"
  by (simp add: processBlock_Rejected mySetTimeout_def)

theorem C5_provider_error_witness:
  "processBlock noVariables toyLibrary startedMonitor 100 (Rejected ''timeout'') =
     (startedMonitor, 100,
      [GetBlock 100, LogError ''[PROCESS_BLOCK:FAILED]'' ''timeout'',
       SetTimeout (ProcessBlock 100) 10000])"
  using C5_provider_error_keeps_delay [of noVariables toyLibrary startedMonitor 100 "''timeout''"]
  by (simp add: startedMonitor_def start_def ChainMonitor_def noVariables_def parseInt_or_def)

subsection \<open>C4: the retries for one address are bounded\<close>

text \<open>
  Claim C4. A request for the code of a candidate address that starts with \<open>R\<close> retries
  left makes at most \<open>R\<close> fetch attempts, whatever the provider answers and whenever the
  monitor is stopped. A request that arrives with no retry left makes no attempt and sets
  no timer: it is dropped. An attempt that finds empty code (\<open>0x\<close>) or fails uses up one
  retry and, on a running monitor, schedules the same address with \<open>R - 1\<close> retries after
  the fixed pause \<open>getBytecodeRetryPause\<close>.
\<close>

theorem C4_bounded_fetch_attempts:
  "fetchAttempts (retryLoop ext mon resp k address R) \<le> nat R
   \<and> retryLoop ext mon resp k address 0 = []
   \<and> (0 < R \<and> (r = Rejected err \<or> r = Resolved ''0x'') \<longrightarrow>
        fetchAttempts (processBytecode ext m address R r) = 1
        \<and> timers (processBytecode ext m address R r) =
            (if running m then [(ProcessBytecode address (R - 1), getBytecodeRetryPause m)]
             else []))"
proof -
  have "fetchAttempts (retryLoop ext mon resp k address R) \<le> nat R"
    by (rule retryLoop_attempts)
  moreover have "retryLoop ext mon resp k address 0 = []"
    by (simp add: retryLoop_dropped)
  moreover have "fetchAttempts (processBytecode ext m address R r) = 1
      \<and> timers (processBytecode ext m address R r) =
          (if running m then [(ProcessBytecode address (R - 1), getBytecodeRetryPause m)] else [])"
    if "0 < R" "r = Rejected err \<or> r = Resolved ''0x''"
    using that
    by (auto simp: processBytecode_retry [OF that] fetchAttempts_mySetTimeout timers_mySetTimeout)
  ultimately show ?thesis by blast
qed

theorem C4_bounded_fetch_attempts_witness:
  "fetchAttempts (retryLoop toyLibrary (\<lambda>k. startedMonitor) (\<lambda>k. Resolved ''0x'') 0 ''0xabc++'' 3) \<le> nat 3
   \<and> fetchAttempts (retryLoop toyLibrary (\<lambda>k. startedMonitor) (\<lambda>k. Resolved ''0x'') 0 ''0xabc++'' 3) = 3
   \<and> retryLoop toyLibrary (\<lambda>k. startedMonitor) (\<lambda>k. Resolved ''0x'') 0 ''0xabc++'' 0 = []
   \<and> (0::int) < 3
   \<and> fetchAttempts (processBytecode toyLibrary startedMonitor ''0xabc++'' 3 (Resolved ''0x'')) = 1
   \<and> timers (processBytecode toyLibrary startedMonitor ''0xabc++'' 3 (Resolved ''0x'')) =
        [(ProcessBytecode ''0xabc++'' 2, 5000)]"
  using C4_bounded_fetch_attempts [of toyLibrary "\<lambda>k. startedMonitor" "\<lambda>k. Resolved ''0x''" 0
      "''0xabc++''" 3 "Resolved ''0x''" undefined startedMonitor]
  by (simp add: retryLoop.simps processBytecode_def mySetTimeout_def startedMonitor_def start_def
      ChainMonitor_def noVariables_def parseInt_or_def)

subsection \<open>C9: the pause stays between the limits\<close>

text \<open>
  Claim C9, as stated, fails: the constructor takes \<open>GET_BLOCK_PAUSE\<close> as it is, and a miss
  cuts the pause at the upper limit only, a fetched block at the lower limit only. With
  \<open>GET_BLOCK_PAUSE=60000\<close> and the default limits the pause of the new monitor is 60000,
  above the upper limit of 30000, and it is still above it after a block has been fetched.
\<close>

theorem C9_counterexample:
  "\<not> getBlockPause (ChainMonitor (noVariables\<lparr>env_GET_BLOCK_PAUSE := Some 60000\<rparr>) ''1'')
       \<le> BLOCK_PAUSE_UPPER_LIMIT (noVariables\<lparr>env_GET_BLOCK_PAUSE := Some 60000\<rparr>)
   \<and> \<not> getBlockPause (fst (processBlock (noVariables\<lparr>env_GET_BLOCK_PAUSE := Some 60000\<rparr>)
           toyLibrary (ChainMonitor (noVariables\<lparr>env_GET_BLOCK_PAUSE := Some 60000\<rparr>) ''1'') 100
           (Resolved (Some \<lparr>transactions = []\<rparr>))))
       \<le> BLOCK_PAUSE_UPPER_LIMIT (noVariables\<lparr>env_GET_BLOCK_PAUSE := Some 60000\<rparr>)"
  by (simp add: processBlock_pause ChainMonitor_def noVariables_def parseInt_or_def
      BLOCK_PAUSE_UPPER_LIMIT_def BLOCK_PAUSE_FACTOR_def BLOCK_PAUSE_LOWER_LIMIT_def)

text \<open>
  Claim C9, amended. Let the growth factor be at least 1 and the lower limit not negative.
  If the pause of the monitor lies between the lower and the upper limit (as the default
  pause of a new monitor does between the default limits), it lies between them after
  every adjustment: after any sequence of misses, fetched blocks, failed requests and calls
  of \<open>stop\<close>.
\<close>

theorem C9_pause_within_limits:
  assumes "1 \<le> BLOCK_PAUSE_FACTOR env" and "0 \<le> BLOCK_PAUSE_LOWER_LIMIT env"
    and "BLOCK_PAUSE_LOWER_LIMIT env \<le> getBlockPause m"
    and "getBlockPause m \<le> BLOCK_PAUSE_UPPER_LIMIT env"
  shows "BLOCK_PAUSE_LOWER_LIMIT env \<le> getBlockPause (fst (pollLoop env ext m h es))
       \<and> getBlockPause (fst (pollLoop env ext m h es)) \<le> BLOCK_PAUSE_UPPER_LIMIT env"
  using assms by (rule pollLoop_bounds)

theorem C9_pause_within_limits_witness:
  "1 \<le> BLOCK_PAUSE_FACTOR noVariables \<and> 0 \<le> BLOCK_PAUSE_LOWER_LIMIT noVariables
   \<and> BLOCK_PAUSE_LOWER_LIMIT noVariables \<le> getBlockPause startedMonitor
   \<and> getBlockPause startedMonitor \<le> BLOCK_PAUSE_UPPER_LIMIT noVariables
   \<and> 500 \<le> getBlockPause (fst (pollLoop noVariables toyLibrary startedMonitor 100
        [Settled (Resolved None), StopCalled, Settled (Rejected ''timeout'')]))
   \<and> getBlockPause (fst (pollLoop noVariables toyLibrary startedMonitor 100
        [Settled (Resolved None), StopCalled, Settled (Rejected ''timeout'')])) \<le> 30000"
  using C9_pause_within_limits [of noVariables startedMonitor toyLibrary 100
      "[Settled (Resolved None), StopCalled, Settled (Rejected ''timeout'')]"]
  by (simp add: noVariables_constants startedMonitor_fields)

subsection \<open>C10: an exception while a block is scanned\<close>

text \<open>
  Claim C10. Let the scan of a fetched block throw, after the calls \<open>calls\<close> of
  \<open>processBytecode\<close> were made. The pause has been shrunk by then; the exception is logged
  as \<open>[PROCESS_BLOCK:FAILED]\<close>, the height is not advanced, and the timer is set for the
  same height. When the provider then returns the same block, it is scanned again: the same
  height is requested twice and every call made before the exception is made twice, so a
  deployment is dispatched more than once.
\<close>

theorem C10_scan_exception_repeats_block:
  assumes "scanTransactions ext (initialGetBytecodeTries m) (transactions b) = (calls, Some err)"
    and "running m"
  shows "processBlock env ext m h (Resolved (Some b)) =
           (m\<lparr>getBlockPause :=
                max (getBlockPause m / BLOCK_PAUSE_FACTOR env) (BLOCK_PAUSE_LOWER_LIMIT env)\<rparr>,
            h,
            GetBlock h # map (\<lambda>(a, n). Call_processBytecode a n) calls
              @ [LogError ''[PROCESS_BLOCK:FAILED]'' err,
                 SetTimeout (ProcessBlock h)
                   (max (getBlockPause m / BLOCK_PAUSE_FACTOR env) (BLOCK_PAUSE_LOWER_LIMIT env))])
       \<and> polled (snd (pollLoop env ext m h
             [Settled (Resolved (Some b)), Settled (Resolved (Some b))])) = [h, h]
       \<and> dispatched (snd (pollLoop env ext m h
             [Settled (Resolved (Some b)), Settled (Resolved (Some b))])) = calls @ calls"
proof -
  let ?m1 = "m\<lparr>getBlockPause :=
      max (getBlockPause m / BLOCK_PAUSE_FACTOR env) (BLOCK_PAUSE_LOWER_LIMIT env)\<rparr>"
  have first: "processBlock env ext m h (Resolved (Some b)) =
      (?m1, h, GetBlock h # map (\<lambda>(a, n). Call_processBytecode a n) calls
        @ LogError ''[PROCESS_BLOCK:FAILED]'' err
        # mySetTimeout m (ProcessBlock h) (getBlockPause ?m1))"
    using processBlock_thrown [OF assms(1)] by simp
  have again: "scanTransactions ext (initialGetBytecodeTries ?m1) (transactions b) = (calls, Some err)"
    using assms(1) by simp
  note second = processBlock_thrown [OF again, of env h]
  have run: "pollLoop env ext m h [Settled (Resolved (Some b)), Settled (Resolved (Some b))] =
      (fst (processBlock env ext ?m1 h (Resolved (Some b))),
       (GetBlock h # map (\<lambda>(a, n). Call_processBytecode a n) calls
          @ LogError ''[PROCESS_BLOCK:FAILED]'' err
          # mySetTimeout m (ProcessBlock h) (getBlockPause ?m1))
        @ snd (snd (processBlock env ext ?m1 h (Resolved (Some b)))))"
    using pollLoop_twice [OF assms(2) first, of "Resolved (Some b)"] second by simp
  show ?thesis
    unfolding run using first assms(2)
    by (simp add: second mySetTimeout_def polled_append polled_calls dispatched_append
        dispatched_calls)
qed

theorem C10_scan_exception_witness:
  "scanTransactions toyLibrary (initialGetBytecodeTries startedMonitor)
       (transactions \<lparr>transactions = [deployTx, brokenTx]\<rparr>) =
     ([(''0xabc++'', 3)], Some ''missing from address'')
   \<and> running startedMonitor
   \<and> processBlock noVariables toyLibrary startedMonitor 100
        (Resolved (Some \<lparr>transactions = [deployTx, brokenTx]\<rparr>)) =
       (startedMonitor\<lparr>getBlockPause := 100000 / 11\<rparr>, 100,
        [GetBlock 100, Call_processBytecode ''0xabc++'' 3,
         LogError ''[PROCESS_BLOCK:FAILED]'' ''missing from address'',
         SetTimeout (ProcessBlock 100) (100000 / 11)])
   \<and> polled (snd (pollLoop noVariables toyLibrary startedMonitor 100
        [Settled (Resolved (Some \<lparr>transactions = [deployTx, brokenTx]\<rparr>)),
         Settled (Resolved (Some \<lparr>transactions = [deployTx, brokenTx]\<rparr>))])) = [100, 100]
   \<and> dispatched (snd (pollLoop noVariables toyLibrary startedMonitor 100
        [Settled (Resolved (Some \<lparr>transactions = [deployTx, brokenTx]\<rparr>)),
         Settled (Resolved (Some \<lparr>transactions = [deployTx, brokenTx]\<rparr>))])) =
       [(''0xabc++'', 3), (''0xabc++'', 3)]"
proof -
  have scan: "scanTransactions toyLibrary (initialGetBytecodeTries startedMonitor)
      (transactions \<lparr>transactions = [deployTx, brokenTx]\<rparr>) =
        ([(''0xabc++'', 3)], Some ''missing from address'')"
    by (simp add: scan_examples startedMonitor_fields del: scanTransactions.simps)
  have run: "running startedMonitor"
    by (simp add: startedMonitor_fields)
  show ?thesis
    using C10_scan_exception_repeats_block [OF scan run, of noVariables 100] scan run
    by (simp add: noVariables_constants startedMonitor_fields del: scanTransactions.simps)
qed

subsection \<open>C1: the height that is polled\<close>

text \<open>
  Claim C1, as stated, fails where it has the height advance by one for every block that was
  retrieved: when the scan of the retrieved block throws, the increment is skipped, and
  the next request asks for the same height again. Here block 100 is retrieved, the
  derivation of an address throws, and the following request is for 100, not 101.
\<close>

theorem C1_counterexample:
  "fst (snd (processBlock noVariables toyLibrary startedMonitor 100
       (Resolved (Some \<lparr>transactions = [brokenTx]\<rparr>)))) \<noteq> 100 + 1
   \<and> polled (snd (pollLoop noVariables toyLibrary startedMonitor 100
       [Settled (Resolved (Some \<lparr>transactions = [brokenTx]\<rparr>)), Settled (Resolved None)])) =
       [100, 100]"
proof -
  have scan: "scanTransactions toyLibrary (initialGetBytecodeTries startedMonitor)
      (transactions \<lparr>transactions = [brokenTx]\<rparr>) = ([], Some ''missing from address'')"
    by (simp add: scan_examples startedMonitor_fields del: scanTransactions.simps)
  note first = processBlock_thrown [OF scan, of noVariables 100]
  show ?thesis
    using pollLoop_twice [OF _ first processBlock_miss] first
    by (simp add: startedMonitor_fields mySetTimeout_def)
qed

text \<open>
  Claim C1, amended. For a given monitor the heights requested, in order, never decrease and
  grow by at most one from a request to the next, starting at the first height: no block is
  skipped, and no block is requested again once a later one has been. The height advances
  by exactly one after a block that was retrieved and whose transactions were scanned
  without an exception; it is unchanged after a miss, after a failed request and after a
  scan that threw. The next request is for the height the handler left.
\<close>

theorem C1_height_never_decreases:
  "sorted (polled (snd (pollLoop env ext m h es)))
   \<and> successively (\<lambda>a b. b = a \<or> b = a + 1) (polled (snd (pollLoop env ext m h es)))
   \<and> (polled (snd (pollLoop env ext m h es)) = [] \<or> hd (polled (snd (pollLoop env ext m h es))) = h)
   \<and> fst (snd (processBlock env ext m h (Rejected err))) = h
   \<and> fst (snd (processBlock env ext m h (Resolved None))) = h
   \<and> fst (snd (processBlock env ext m h (Resolved (Some b)))) =
       (if snd (scanTransactions ext (initialGetBytecodeTries m) (transactions b)) = None
        then h + 1 else h)
   \<and> timers (snd (snd (processBlock env ext m h r))) =
       (if running m
        then [(ProcessBlock (fst (snd (processBlock env ext m h r))),
               getBlockPause (fst (processBlock env ext m h r)))]
        else [])"
proof -
  have "sorted (polled (snd (pollLoop env ext m h es)))
      \<and> successively (\<lambda>a b. b = a \<or> b = a + 1) (polled (snd (pollLoop env ext m h es)))
      \<and> (polled (snd (pollLoop env ext m h es)) = []
          \<or> hd (polled (snd (pollLoop env ext m h es))) = h)"
    using pollLoop_polled [OF refl, of env ext m h es] by blast
  moreover have "fst (snd (processBlock env ext m h (Rejected err))) = h"
    and "fst (snd (processBlock env ext m h (Resolved None))) = h"
    and "fst (snd (processBlock env ext m h (Resolved (Some b)))) =
       (if snd (scanTransactions ext (initialGetBytecodeTries m) (transactions b)) = None
        then h + 1 else h)"
    by (simp_all add: processBlock_height)
  ultimately show ?thesis
    using processBlock_timers [of env ext m h r] by blast
qed

theorem C1_height_never_decreases_witness:
  "sorted (polled (snd (pollLoop noVariables toyLibrary startedMonitor 100
     [Settled (Resolved (Some \<lparr>transactions = [deployTx, transferTx]\<rparr>)),
      Settled (Resolved None), Settled (Rejected ''timeout''),
      Settled (Resolved (Some \<lparr>transactions = [brokenTx]\<rparr>))])))
   \<and> polled (snd (pollLoop noVariables toyLibrary startedMonitor 100
     [Settled (Resolved (Some \<lparr>transactions = [deployTx, transferTx]\<rparr>)),
      Settled (Resolved None), Settled (Rejected ''timeout''),
      Settled (Resolved (Some \<lparr>transactions = [brokenTx]\<rparr>))])) = [100, 101, 101, 101]
   \<and> fst (snd (processBlock noVariables toyLibrary startedMonitor 100
        (Resolved (Some \<lparr>transactions = [deployTx, transferTx]\<rparr>)))) = 101
   \<and> fst (snd (processBlock noVariables toyLibrary startedMonitor 101 (Resolved None))) = 101"
  using C1_height_never_decreases [of noVariables toyLibrary startedMonitor 100
      "[Settled (Resolved (Some \<lparr>transactions = [deployTx, transferTx]\<rparr>)),
        Settled (Resolved None), Settled (Rejected ''timeout''),
        Settled (Resolved (Some \<lparr>transactions = [brokenTx]\<rparr>))]"
      "''timeout''" "\<lparr>transactions = [deployTx, transferTx]\<rparr>" "Resolved None"]
    C1_height_never_decreases [of noVariables toyLibrary startedMonitor 101 "[]"
      "''timeout''" "\<lparr>transactions = [deployTx, transferTx]\<rparr>" "Resolved None"]
  by (simp add: pollLoop_example scan_examples startedMonitor_fields del: scanTransactions.simps)

subsection \<open>C7: nothing is scheduled after \<open>stop\<close>\<close>

text \<open>
  Claim C7. \<open>stop\<close> clears the flag \<open>running\<close>, and calling it again changes nothing. On a
  stopped monitor \<open>mySetTimeout\<close> sets no timer, so a block request or a code request that
  settles after \<open>stop\<close> schedules nothing, whatever it settles with. In the polling loop no
  timer is set after the call of \<open>stop\<close>, whatever events follow (further calls of
  \<open>stop\<close> among them), and the flag stays cleared; the retries of a candidate set no timer
  on a monitor that is stopped.
\<close>

theorem C7_stop_ends_scheduling:
  "stop (stop m) = stop m
   \<and> \<not> running (stop m)
   \<and> mySetTimeout (stop m) handler timeout = []
   \<and> timers (snd (snd (processBlock env ext (stop m) h r))) = []
   \<and> timers (processBytecode ext (stop m) address retriesLeft rc) = []
   \<and> timers (snd (pollLoop env ext m h (es1 @ StopCalled # es2))) =
       timers (snd (pollLoop env ext m h es1))
   \<and> \<not> running (fst (pollLoop env ext m h (es1 @ StopCalled # es2)))
   \<and> timers (retryLoop ext (\<lambda>k. stop (mon k)) resp k address retriesLeft) = []"
proof -
  have off: "\<not> running (stop x)" for x
    by (simp add: stop_def)
  have "timers (retryLoop ext (\<lambda>k. stop (mon k)) resp k address retriesLeft) = []"
    using retryLoop_no_timer [of ext "\<lambda>k. stop (mon k)" k address retriesLeft resp]
      timers_processBytecode_stopped [OF off, of ext "mon k" address retriesLeft "resp k"]
    by simp
  moreover have "stop (stop m) = stop m" and "mySetTimeout (stop m) handler timeout = []"
    by (simp_all add: stop_def mySetTimeout_def)
  moreover have "timers (snd (snd (processBlock env ext (stop m) h r))) = []"
    using off [of m] by (simp add: processBlock_timers)
  ultimately show ?thesis
    using off [of m] timers_processBytecode_stopped [OF off, of ext m address retriesLeft rc]
      pollLoop_after_stop [of env ext m h es1 es2]
    by simp
qed

theorem C7_stop_ends_scheduling_witness:
  "timers (snd (pollLoop noVariables toyLibrary startedMonitor 100
      ([Settled (Resolved None)] @ StopCalled # [StopCalled, Settled (Resolved None)]))) =
     [(ProcessBlock 100, 11000)]
   \<and> timers (processBytecode toyLibrary (stop startedMonitor) ''0xabc++'' 3 (Resolved ''0x'')) = []
   \<and> stop (stop startedMonitor) = stop startedMonitor"
proof -
  have one: "timers (snd (pollLoop noVariables toyLibrary startedMonitor 100
      [Settled (Resolved None)])) = [(ProcessBlock 100, 11000)]"
    by (simp add: pollLoop_Settled [OF processBlock_miss] mySetTimeout_def noVariables_constants
        startedMonitor_fields)
  show ?thesis
    using C7_stop_ends_scheduling [where m = startedMonitor and env = noVariables
        and ext = toyLibrary and h = 100 and address = "''0xabc++''" and retriesLeft = 3
        and rc = "Resolved ''0x''" and ?es1.0 = "[Settled (Resolved None)]"
        and ?es2.0 = "[StopCalled, Settled (Resolved None)]"]
    unfolding one by blast
qed

subsection \<open>C2: consecutive misses grow the pause\<close>

text \<open>
  Claim C2, as stated, fails: the pause after \<open>N\<close> misses is not always the initial pause
  times the factor to the power \<open>N\<close>, cut at the upper limit. With
  \<open>BLOCK_PAUSE_UPPER_LIMIT=-5\<close> and the other defaults the first miss cuts the pause to
  -5 and the second makes it -5.5, where the formula gives -5. (Apart from that, the
  program rounds every product to binary64: under the defaults the second miss leaves
  12100.000000000002, so the formula is not stated below where a product may be rounded.)
\<close>

theorem C2_counterexample:
  "getBlockPause (fst (pollLoop (noVariables\<lparr>env_BLOCK_PAUSE_UPPER_LIMIT := Some (- 5)\<rparr>)
       toyLibrary startedMonitor 100 (replicate 2 (Settled (Resolved None))))) = - 11 / 2
   \<and> min (getBlockPause startedMonitor
          * BLOCK_PAUSE_FACTOR (noVariables\<lparr>env_BLOCK_PAUSE_UPPER_LIMIT := Some (- 5)\<rparr>) ^ 2)
        (BLOCK_PAUSE_UPPER_LIMIT (noVariables\<lparr>env_BLOCK_PAUSE_UPPER_LIMIT := Some (- 5)\<rparr>)) = - 5"
  by (simp add: numeral_2_eq_2 pollLoop_miss_fst startedMonitor_fields BLOCK_PAUSE_FACTOR_def
      BLOCK_PAUSE_UPPER_LIMIT_def noVariables_def parseInt_or_def power_divide)

text \<open>
  Claim C2, amended. Let a running monitor receive \<open>N\<close> answers "no block" in a row at
  height \<open>h\<close>, \<open>N > 0\<close>. After the \<open>N\<close>-th miss the pause does not exceed the upper limit;
  all \<open>N\<close> requests ask for \<open>h\<close>, every miss sets the timer for the same height \<open>h\<close>, and
  the timer of the last miss carries the pause that miss has left. If the factor is greater
  than 1, the lower limit is not negative and the initial pause is at least the lower limit
  and below the upper limit, the pause after the \<open>N\<close>-th miss is greater than the initial
  pause. If the factor is at least 1, the upper limit and the initial pause are not
  negative, and the factor, the initial pause, the initial pause times the factor and the
  upper limit times the factor are safe integers (so that no product is rounded), the pause
  after the \<open>N\<close>-th miss equals the initial pause times the factor to the power \<open>N\<close>, cut at
  the upper limit.
\<close>

theorem C2_misses_bounded_growth:
  fixes env :: process_env and ext :: "('c, 's) externals"
  defines "run N m h \<equiv> pollLoop env ext m h (replicate N (Settled (Resolved None)))"
  assumes "running m" and "0 < N"
  shows "getBlockPause (fst (run N m h)) \<le> BLOCK_PAUSE_UPPER_LIMIT env
       \<and> polled (snd (run N m h)) = replicate N h
       \<and> map fst (timers (snd (run N m h))) = replicate N (ProcessBlock h)
       \<and> snd (last (timers (snd (run N m h)))) = getBlockPause (fst (run N m h))
       \<and> (1 < BLOCK_PAUSE_FACTOR env \<and> 0 \<le> BLOCK_PAUSE_LOWER_LIMIT env
            \<and> BLOCK_PAUSE_LOWER_LIMIT env \<le> getBlockPause m
            \<and> getBlockPause m < BLOCK_PAUSE_UPPER_LIMIT env \<longrightarrow>
            getBlockPause m < getBlockPause (fst (run N m h)))
       \<and> (1 \<le> BLOCK_PAUSE_FACTOR env \<and> 0 \<le> BLOCK_PAUSE_UPPER_LIMIT env
            \<and> 0 \<le> getBlockPause m
            \<and> isSafeInteger (BLOCK_PAUSE_FACTOR env) \<and> isSafeInteger (getBlockPause m)
            \<and> isSafeInteger (getBlockPause m * BLOCK_PAUSE_FACTOR env)
            \<and> isSafeInteger (BLOCK_PAUSE_UPPER_LIMIT env * BLOCK_PAUSE_FACTOR env) \<longrightarrow>
            getBlockPause (fst (run N m h)) =
              min (getBlockPause m * BLOCK_PAUSE_FACTOR env ^ N) (BLOCK_PAUSE_UPPER_LIMIT env))"
proof -
  obtain n where n: "N = Suc n" using assms(3) by (cases N) auto
  obtain m2 acts where run: "run (Suc n) m h = (m2, acts)"
    by (cases "run (Suc n) m h")
  note shape = pollLoop_misses_shape [OF assms(2) run [unfolded run_def]]
  have grow: "getBlockPause m < getBlockPause (fst (run N m h))"
    if "1 < BLOCK_PAUSE_FACTOR env \<and> 0 \<le> BLOCK_PAUSE_LOWER_LIMIT env
        \<and> BLOCK_PAUSE_LOWER_LIMIT env \<le> getBlockPause m
        \<and> getBlockPause m < BLOCK_PAUSE_UPPER_LIMIT env"
  proof -
    have "0 < getBlockPause m" using that lower_limit_positive [of env] by linarith
    with that assms(2) show ?thesis
      unfolding run_def n by (intro pollLoop_misses_strict) simp_all
  qed
  have exact: "getBlockPause (fst (run N m h)) =
      min (getBlockPause m * BLOCK_PAUSE_FACTOR env ^ N) (BLOCK_PAUSE_UPPER_LIMIT env)"
    if "1 \<le> BLOCK_PAUSE_FACTOR env \<and> 0 \<le> BLOCK_PAUSE_UPPER_LIMIT env"
    using that pollLoop_misses [OF _ _ assms(2) run [unfolded run_def]] run n by simp
  show ?thesis
    using shape run n grow exact by simp
qed

theorem C2_misses_bounded_growth_witness:
  "running startedMonitor \<and> (0::nat) < 3
   \<and> 1 < BLOCK_PAUSE_FACTOR factorTwo \<and> 0 \<le> BLOCK_PAUSE_LOWER_LIMIT factorTwo
   \<and> BLOCK_PAUSE_LOWER_LIMIT factorTwo \<le> getBlockPause startedMonitor
   \<and> getBlockPause startedMonitor < BLOCK_PAUSE_UPPER_LIMIT factorTwo
   \<and> isSafeInteger (BLOCK_PAUSE_FACTOR factorTwo) \<and> isSafeInteger (getBlockPause startedMonitor)
   \<and> isSafeInteger (getBlockPause startedMonitor * BLOCK_PAUSE_FACTOR factorTwo)
   \<and> isSafeInteger (BLOCK_PAUSE_UPPER_LIMIT factorTwo * BLOCK_PAUSE_FACTOR factorTwo)
   \<and> getBlockPause (fst (pollLoop factorTwo toyLibrary startedMonitor 100
        (replicate 3 (Settled (Resolved None))))) = 30000
   \<and> getBlockPause startedMonitor
        < getBlockPause (fst (pollLoop factorTwo toyLibrary startedMonitor 100
            (replicate 3 (Settled (Resolved None)))))
   \<and> polled (snd (pollLoop factorTwo toyLibrary startedMonitor 100
        (replicate 3 (Settled (Resolved None))))) = [100, 100, 100]
   \<and> map fst (timers (snd (pollLoop factorTwo toyLibrary startedMonitor 100
        (replicate 3 (Settled (Resolved None)))))) =
        [ProcessBlock 100, ProcessBlock 100, ProcessBlock 100]
   \<and> snd (last (timers (snd (pollLoop factorTwo toyLibrary startedMonitor 100
        (replicate 3 (Settled (Resolved None))))))) = 30000"
proof -
  have rep: "replicate 3 x = [x, x, x]" for x :: 'a
    by (simp add: numeral_3_eq_3)
  show ?thesis
    using C2_misses_bounded_growth [of startedMonitor 3 factorTwo toyLibrary 100]
    by (simp add: factorTwo_constants startedMonitor_fields isSafeInteger_def rep [of "100::int"]
        rep [of "ProcessBlock 100"])
qed

subsection \<open>C3: a fetched block shrinks the pause\<close>

text \<open>
  Claim C3, as stated, fails in three places, shown here with \<open>BLOCK_PAUSE_FACTOR=2\<close>. The
  next request is not made at once: the timer is set with the new pause, 5000 ms after a
  first block. The height is not advanced after every block that was fetched: when the scan
  throws, the timer is set for the same height. And the pause does not always decrease:
  with \<open>BLOCK_PAUSE_LOWER_LIMIT=-1000\<close> and \<open>GET_BLOCK_PAUSE=-500\<close> a fetched block raises
  it from -500 to -250.
\<close>

theorem C3_counterexample:
  "timers (snd (snd (processBlock factorTwo toyLibrary startedMonitor 100
       (Resolved (Some \<lparr>transactions = [deployTx, transferTx]\<rparr>))))) =
     [(ProcessBlock 101, 5000)]
   \<and> (5000 :: rat) \<noteq> 0
   \<and> timers (snd (snd (processBlock factorTwo toyLibrary startedMonitor 100
       (Resolved (Some \<lparr>transactions = [deployTx, brokenTx]\<rparr>))))) =
     [(ProcessBlock 100, 5000)]
   \<and> getBlockPause (ChainMonitor
         (factorTwo\<lparr>env_BLOCK_PAUSE_LOWER_LIMIT := Some (- 1000),
            env_GET_BLOCK_PAUSE := Some (- 500)\<rparr>) ''1'') = - 500
   \<and> getBlockPause (fst (processBlock
         (factorTwo\<lparr>env_BLOCK_PAUSE_LOWER_LIMIT := Some (- 1000),
            env_GET_BLOCK_PAUSE := Some (- 500)\<rparr>) toyLibrary
         (ChainMonitor
           (factorTwo\<lparr>env_BLOCK_PAUSE_LOWER_LIMIT := Some (- 1000),
              env_GET_BLOCK_PAUSE := Some (- 500)\<rparr>) ''1'')
         100 (Resolved (Some \<lparr>transactions = []\<rparr>)))) = - 250"
proof -
  have ok: "scanTransactions toyLibrary (initialGetBytecodeTries startedMonitor)
      (transactions \<lparr>transactions = [deployTx, transferTx]\<rparr>) = ([(''0xabc++'', 3)], None)"
    and thrown: "scanTransactions toyLibrary (initialGetBytecodeTries startedMonitor)
      (transactions \<lparr>transactions = [deployTx, brokenTx]\<rparr>) =
        ([(''0xabc++'', 3)], Some ''missing from address'')"
    by (simp_all add: scan_examples startedMonitor_fields del: scanTransactions.simps)
  have "getBlockPause (fst (processBlock
         (factorTwo\<lparr>env_BLOCK_PAUSE_LOWER_LIMIT := Some (- 1000),
            env_GET_BLOCK_PAUSE := Some (- 500)\<rparr>) toyLibrary
         (ChainMonitor
           (factorTwo\<lparr>env_BLOCK_PAUSE_LOWER_LIMIT := Some (- 1000),
              env_GET_BLOCK_PAUSE := Some (- 500)\<rparr>) ''1'')
         100 (Resolved (Some \<lparr>transactions = []\<rparr>)))) = - 250"
    by (simp add: processBlock_pause ChainMonitor_def factorTwo_def noVariables_def
        parseInt_or_def BLOCK_PAUSE_FACTOR_def BLOCK_PAUSE_LOWER_LIMIT_def)
  moreover have "getBlockPause (ChainMonitor
         (factorTwo\<lparr>env_BLOCK_PAUSE_LOWER_LIMIT := Some (- 1000),
            env_GET_BLOCK_PAUSE := Some (- 500)\<rparr>) ''1'') = - 500"
    by (simp add: ChainMonitor_def parseInt_or_def)
  moreover have "timers (snd (snd (processBlock factorTwo toyLibrary startedMonitor 100
       (Resolved (Some \<lparr>transactions = [deployTx, transferTx]\<rparr>))))) =
     [(ProcessBlock 101, 5000)]"
    by (simp add: processBlock_scanned [OF ok] mySetTimeout_def startedMonitor_fields
        factorTwo_constants)
  moreover have "timers (snd (snd (processBlock factorTwo toyLibrary startedMonitor 100
       (Resolved (Some \<lparr>transactions = [deployTx, brokenTx]\<rparr>))))) =
     [(ProcessBlock 100, 5000)]"
    by (simp add: processBlock_thrown [OF thrown] mySetTimeout_def startedMonitor_fields
        factorTwo_constants)
  ultimately show ?thesis by simp
qed

text \<open>
  Claim C3, amended. After every block that was fetched the pause is not below the lower
  limit. If the factor is greater than 1 and the lower limit is not negative, the pause is
  strictly smaller than before whenever the old pause was above the lower limit. If the
  factor is at least 1, the lower limit is not negative and the old pause is at most the
  lower limit times the factor, the new pause is the lower limit. If the factor, the old
  pause and the old pause divided by the factor are safe integers (so that the quotient is
  not rounded), the new pause is the old pause divided by the factor, raised to the lower
  limit when below it. When the scan of the block completes without an exception, the
  height is advanced by one and the timer for the next request is then set, on a running
  monitor, for the new height with the new pause as its delay (not a delay of zero).
\<close>

theorem C3_success_shrinks_delay:
  fixes env :: process_env and ext :: "('c, 's) externals"
  defines "fetched m h b \<equiv> processBlock env ext m h (Resolved (Some b))"
  shows "BLOCK_PAUSE_LOWER_LIMIT env \<le> getBlockPause (fst (fetched m h b))
       \<and> (1 < BLOCK_PAUSE_FACTOR env \<and> 0 \<le> BLOCK_PAUSE_LOWER_LIMIT env
            \<and> BLOCK_PAUSE_LOWER_LIMIT env < getBlockPause m \<longrightarrow>
            getBlockPause (fst (fetched m h b)) < getBlockPause m)
       \<and> (1 \<le> BLOCK_PAUSE_FACTOR env \<and> 0 \<le> BLOCK_PAUSE_LOWER_LIMIT env
            \<and> getBlockPause m \<le> BLOCK_PAUSE_LOWER_LIMIT env * BLOCK_PAUSE_FACTOR env \<longrightarrow>
            getBlockPause (fst (fetched m h b)) = BLOCK_PAUSE_LOWER_LIMIT env)
       \<and> (isSafeInteger (BLOCK_PAUSE_FACTOR env) \<and> isSafeInteger (getBlockPause m)
            \<and> isSafeInteger (getBlockPause m / BLOCK_PAUSE_FACTOR env) \<longrightarrow>
            getBlockPause (fst (fetched m h b)) =
              max (getBlockPause m / BLOCK_PAUSE_FACTOR env) (BLOCK_PAUSE_LOWER_LIMIT env))
       \<and> (snd (scanTransactions ext (initialGetBytecodeTries m) (transactions b)) = None \<longrightarrow>
            fst (snd (fetched m h b)) = h + 1
            \<and> timers (snd (snd (fetched m h b))) =
                (if running m
                 then [(ProcessBlock (h + 1), getBlockPause (fst (fetched m h b)))]
                 else []))"
proof -
  have p: "getBlockPause (fst (fetched m h b)) =
      max (getBlockPause m / BLOCK_PAUSE_FACTOR env) (BLOCK_PAUSE_LOWER_LIMIT env)"
    by (simp add: fetched_def processBlock_pause)
  have less: "getBlockPause (fst (fetched m h b)) < getBlockPause m"
    if "1 < BLOCK_PAUSE_FACTOR env \<and> 0 \<le> BLOCK_PAUSE_LOWER_LIMIT env
        \<and> BLOCK_PAUSE_LOWER_LIMIT env < getBlockPause m"
    unfolding p using that by (intro shrink_strict) simp_all
  have low: "getBlockPause (fst (fetched m h b)) = BLOCK_PAUSE_LOWER_LIMIT env"
    if "1 \<le> BLOCK_PAUSE_FACTOR env \<and> 0 \<le> BLOCK_PAUSE_LOWER_LIMIT env
        \<and> getBlockPause m \<le> BLOCK_PAUSE_LOWER_LIMIT env * BLOCK_PAUSE_FACTOR env"
    unfolding p using that by (intro shrink_to_lower) simp_all
  have advanced: "fst (snd (fetched m h b)) = h + 1
      \<and> timers (snd (snd (fetched m h b))) =
          (if running m
           then [(ProcessBlock (h + 1), getBlockPause (fst (fetched m h b)))]
           else [])"
    if "snd (scanTransactions ext (initialGetBytecodeTries m) (transactions b)) = None"
    using that processBlock_timers [of env ext m h "Resolved (Some b)"]
    by (simp add: fetched_def processBlock_height)
  show ?thesis
    using less low advanced p by simp
qed

theorem C3_success_shrinks_delay_witness:
  "1 < BLOCK_PAUSE_FACTOR factorTwo \<and> 0 \<le> BLOCK_PAUSE_LOWER_LIMIT factorTwo
   \<and> BLOCK_PAUSE_LOWER_LIMIT factorTwo < getBlockPause startedMonitor
   \<and> isSafeInteger (BLOCK_PAUSE_FACTOR factorTwo) \<and> isSafeInteger (getBlockPause startedMonitor)
   \<and> isSafeInteger (getBlockPause startedMonitor / BLOCK_PAUSE_FACTOR factorTwo)
   \<and> snd (scanTransactions toyLibrary (initialGetBytecodeTries startedMonitor)
        (transactions \<lparr>transactions = [deployTx, transferTx]\<rparr>)) = None
   \<and> getBlockPause (fst (processBlock factorTwo toyLibrary startedMonitor 100
        (Resolved (Some \<lparr>transactions = [deployTx, transferTx]\<rparr>)))) = 5000
   \<and> getBlockPause (fst (processBlock factorTwo toyLibrary startedMonitor 100
        (Resolved (Some \<lparr>transactions = [deployTx, transferTx]\<rparr>)))) < getBlockPause startedMonitor
   \<and> fst (snd (processBlock factorTwo toyLibrary startedMonitor 100
        (Resolved (Some \<lparr>transactions = [deployTx, transferTx]\<rparr>)))) = 101
   \<and> timers (snd (snd (processBlock factorTwo toyLibrary startedMonitor 100
        (Resolved (Some \<lparr>transactions = [deployTx, transferTx]\<rparr>))))) = [(ProcessBlock 101, 5000)]
   \<and> getBlockPause (startedMonitor\<lparr>getBlockPause := 625\<rparr>)
        \<le> BLOCK_PAUSE_LOWER_LIMIT factorTwo * BLOCK_PAUSE_FACTOR factorTwo
   \<and> getBlockPause (fst (processBlock factorTwo toyLibrary (startedMonitor\<lparr>getBlockPause := 625\<rparr>)
        101 (Resolved (Some \<lparr>transactions = []\<rparr>)))) = 500"
proof -
  have ok: "snd (scanTransactions toyLibrary (initialGetBytecodeTries startedMonitor)
      (transactions \<lparr>transactions = [deployTx, transferTx]\<rparr>)) = None"
    by (simp add: scan_examples startedMonitor_fields del: scanTransactions.simps)
  show ?thesis
    using C3_success_shrinks_delay [where env = factorTwo and m = startedMonitor
        and ext = toyLibrary and h = 100 and b = "\<lparr>transactions = [deployTx, transferTx]\<rparr>"]
      C3_success_shrinks_delay [where env = factorTwo
        and m = "startedMonitor\<lparr>getBlockPause := 625\<rparr>" and ext = toyLibrary and h = 101
        and b = "\<lparr>transactions = []\<rparr>"]
      ok
    by (simp add: factorTwo_constants startedMonitor_fields isSafeInteger_def
        del: scanTransactions.simps)
qed

subsection \<open>C6: code that is not empty and the extraction\<close>

text \<open>
  Claim C6, as stated, fails for code that is not empty and that \<open>hexToBytes\<close> rejects:
  the call of \<open>hexToBytes\<close> stands before the \<open>try\<close> block, its exception reaches the
  \<open>catch\<close> of the promise chain, and the candidate is scheduled again. Here the provider
  returns \<open>6080\<close>, without the prefix \<open>0x\<close>.
\<close>

theorem C6_counterexample:
  "''6080'' \<noteq> ''0x''
   \<and> processBytecode toyLibrary startedMonitor ''0xabc++'' 3 (Resolved ''6080'') =
       [GetCode ''0xabc++'', LogError ''[GET_BYTECODE]'' ''not a valid hex string'',
        SetTimeout (ProcessBytecode ''0xabc++'' 2) 5000]"
  by (simp add: processBytecode_def mySetTimeout_def toyLibrary_def startedMonitor_fields)

text \<open>
  Claim C6, amended. Let a request for the code, made with a retry left, return code that is
  not empty: a string other than \<open>0x\<close>. If \<open>hexToBytes\<close> turns the string into bytes, the
  bytes are handed to the extraction (the \<open>try\<close> block) and no timer is set, whatever the
  extraction does: the retries for the candidate end with this one attempt. When decoding
  the bytes or reading the metadata pointer throws, the handler logs
  \<open>[GET_BYTECODE:METADATA_READING]\<close> and returns: nothing else is done for the candidate
  and no exception leaves the handler. When both succeed the pointer goes to \<open>assemble\<close>.
  If \<open>hexToBytes\<close> throws, the exception is handled as a failed request is: it is logged
  as \<open>[GET_BYTECODE]\<close> and, on a running monitor, the same address is scheduled with one
  retry fewer after the fixed pause.
\<close>

theorem C6_code_handed_to_extraction:
  assumes "0 < retriesLeft" and "bytecode \<noteq> ''0x''"
  shows "(hexToBytes ext bytecode = Inr numericBytecode \<longrightarrow>
           processBytecode ext m address retriesLeft (Resolved bytecode) =
             GetCode address # tryAssemble ext numericBytecode
           \<and> timers (processBytecode ext m address retriesLeft (Resolved bytecode)) = []
           \<and> retryLoop ext mon (resp(k := Resolved bytecode)) k address retriesLeft =
               GetCode address # tryAssemble ext numericBytecode
           \<and> fetchAttempts
               (retryLoop ext mon (resp(k := Resolved bytecode)) k address retriesLeft) = 1
           \<and> (cborDecode ext numericBytecode = Inl err \<longrightarrow>
                tryAssemble ext numericBytecode =
                  [LogError ''[GET_BYTECODE:METADATA_READING]'' err])
           \<and> (cborDecode ext numericBytecode = Inr cborData
                \<and> fromCborData ext cborData = Inl err \<longrightarrow>
                tryAssemble ext numericBytecode =
                  [LogError ''[GET_BYTECODE:METADATA_READING]'' err])
           \<and> (cborDecode ext numericBytecode = Inr cborData
                \<and> fromCborData ext cborData = Inr metadataAddress
                \<and> assemble ext metadataAddress = None \<longrightarrow>
                tryAssemble ext numericBytecode = [Assemble metadataAddress]))
       \<and> (hexToBytes ext bytecode = Inl thrown \<longrightarrow>
           processBytecode ext m address retriesLeft (Resolved bytecode) =
             GetCode address # LogError ''[GET_BYTECODE]'' thrown
               # (if running m
                  then [SetTimeout (ProcessBytecode address (retriesLeft - 1))
                          (getBytecodeRetryPause m)]
                  else []))"
proof -
  have decoded: "processBytecode ext x address retriesLeft (Resolved bytecode) =
      GetCode address # tryAssemble ext numericBytecode"
    if "hexToBytes ext bytecode = Inr numericBytecode" for x
    using assms that by (rule processBytecode_code)
  have loop: "retryLoop ext mon (resp(k := Resolved bytecode)) k address retriesLeft =
      GetCode address # tryAssemble ext numericBytecode"
    if "hexToBytes ext bytecode = Inr numericBytecode"
    using retryLoop_no_timer [of ext mon k address retriesLeft "resp(k := Resolved bytecode)"]
    by (simp add: decoded [OF that] timers_tryAssemble)
  have rejected: "processBytecode ext m address retriesLeft (Resolved bytecode) =
      GetCode address # LogError ''[GET_BYTECODE]'' thrown
        # (if running m
           then [SetTimeout (ProcessBytecode address (retriesLeft - 1)) (getBytecodeRetryPause m)]
           else [])"
    if "hexToBytes ext bytecode = Inl thrown"
    using processBytecode_not_hex [OF assms that] by (simp add: mySetTimeout_def)
  have extraction: "(cborDecode ext numericBytecode = Inl err \<longrightarrow>
        tryAssemble ext numericBytecode = [LogError ''[GET_BYTECODE:METADATA_READING]'' err])
      \<and> (cborDecode ext numericBytecode = Inr cborData \<and> fromCborData ext cborData = Inl err \<longrightarrow>
        tryAssemble ext numericBytecode = [LogError ''[GET_BYTECODE:METADATA_READING]'' err])
      \<and> (cborDecode ext numericBytecode = Inr cborData
          \<and> fromCborData ext cborData = Inr metadataAddress
          \<and> assemble ext metadataAddress = None \<longrightarrow>
        tryAssemble ext numericBytecode = [Assemble metadataAddress])"
    by (simp add: tryAssemble_def)
  show ?thesis
    using decoded loop rejected extraction
    by (simp add: timers_tryAssemble fetchAttempts_tryAssemble)
qed

theorem C6_code_handed_to_extraction_witness:
  "(0::int) < 3 \<and> ''0x60'' \<noteq> ''0x'' \<and> hexToBytes toyLibrary ''0x60'' = Inr [54, 48]
   \<and> cborDecode toyLibrary [54, 48] = Inl ''unexpected end of CBOR data''
   \<and> processBytecode toyLibrary startedMonitor ''0xabc++'' 3 (Resolved ''0x60'') =
        [GetCode ''0xabc++'',
         LogError ''[GET_BYTECODE:METADATA_READING]'' ''unexpected end of CBOR data'']
   \<and> retryLoop toyLibrary (\<lambda>k. startedMonitor) ((\<lambda>k. Resolved ''0x'')(0 := Resolved ''0x60''))
        0 ''0xabc++'' 3 =
        [GetCode ''0xabc++'',
         LogError ''[GET_BYTECODE:METADATA_READING]'' ''unexpected end of CBOR data'']
   \<and> ''6080'' \<noteq> ''0x'' \<and> hexToBytes toyLibrary ''6080'' = Inl ''not a valid hex string''
   \<and> processBytecode toyLibrary startedMonitor ''0xabc++'' 3 (Resolved ''6080'') =
        [GetCode ''0xabc++'', LogError ''[GET_BYTECODE]'' ''not a valid hex string'',
         SetTimeout (ProcessBytecode ''0xabc++'' 2) 5000]"
proof -
  have hex: "hexToBytes toyLibrary ''0x60'' = Inr [54, 48]"
    and cbor: "cborDecode toyLibrary [54, 48] = Inl ''unexpected end of CBOR data''"
    and bad: "hexToBytes toyLibrary ''6080'' = Inl ''not a valid hex string''"
    by (simp_all add: toyLibrary_def)
  show ?thesis
    using C6_code_handed_to_extraction [where retriesLeft = 3 and bytecode = "''0x60''"
        and ext = toyLibrary and numericBytecode = "[54, 48]" and m = startedMonitor
        and address = "''0xabc++''" and mon = "\<lambda>k. startedMonitor"
        and resp = "\<lambda>k. Resolved ''0x''" and k = 0 and err = "''unexpected end of CBOR data''"]
      C6_code_handed_to_extraction [where retriesLeft = 3 and bytecode = "''6080''"
        and ext = toyLibrary and m = startedMonitor and address = "''0xabc++''"
        and thrown = "''not a valid hex string''"]
      hex cbor bad
    by (simp add: startedMonitor_fields)
qed

subsection \<open>C8: which transactions create a contract\<close>

text \<open>
  Claim C8, as stated, fails where it has every creation of a retrieved block yield an
  address: the loop ends at the first creation whose derivation throws, and the creations
  after it yield nothing. In the block below the second transaction is a creation, and no
  call of \<open>processBytecode\<close> is made for it, in the first scan or when the block is fetched
  again.
\<close>

theorem C8_counterexample:
  "createsContract deployTx
   \<and> dispatched (snd (snd (processBlock noVariables toyLibrary startedMonitor 100
        (Resolved (Some \<lparr>transactions = [brokenTx, deployTx]\<rparr>))))) = []
   \<and> dispatched (snd (pollLoop noVariables toyLibrary startedMonitor 100
        [Settled (Resolved (Some \<lparr>transactions = [brokenTx, deployTx]\<rparr>)),
         Settled (Resolved (Some \<lparr>transactions = [brokenTx, deployTx]\<rparr>))])) = []"
proof -
  have scan: "scanTransactions toyLibrary (initialGetBytecodeTries m)
      (transactions \<lparr>transactions = [brokenTx, deployTx]\<rparr>) = ([], Some ''missing from address'')"
    if "initialGetBytecodeTries m = 3" for m :: chain_monitor
    using that by (simp add: scan_examples_thrown_first del: scanTransactions.simps)
  note first = processBlock_thrown [OF scan [OF startedMonitor_fields(4)],
      where env = noVariables and h = 100]
  have tries: "initialGetBytecodeTries (startedMonitor\<lparr>getBlockPause := p\<rparr>) = 3" for p
    by (simp add: startedMonitor_fields)
  note second = processBlock_thrown [OF scan [OF tries], where env = noVariables and h = 100]
  have "createsContract deployTx"
    by (simp add: createsContract_def deployTx_def)
  moreover have "dispatched (snd (snd (processBlock noVariables toyLibrary startedMonitor 100
      (Resolved (Some \<lparr>transactions = [brokenTx, deployTx]\<rparr>))))) = []"
    by (simp add: first mySetTimeout_def)
  moreover have "dispatched (snd (pollLoop noVariables toyLibrary startedMonitor 100
      [Settled (Resolved (Some \<lparr>transactions = [brokenTx, deployTx]\<rparr>)),
       Settled (Resolved (Some \<lparr>transactions = [brokenTx, deployTx]\<rparr>))])) = []"
    by (simp add: pollLoop_twice [OF startedMonitor_fields(1) first second] mySetTimeout_def)
  ultimately show ?thesis by simp
qed

text \<open>
  Claim C8, amended. A transaction of a retrieved block is treated as a contract creation if
  and only if its recipient is absent or empty. One scan of the block makes exactly one
  call of \<open>processBytecode\<close>, with the derived address and the initial number of tries, for
  each creation that stands before the first creation whose derivation throws, in the order
  of the block; it makes none for that creation, for the transactions after it and for
  the transactions that are no creations. The address is derived from the sender and the
  nonce of the transaction alone, so the same pair gets the same address.
\<close>

theorem C8_creations_dispatched:
  "dispatched (snd (snd (processBlock env ext m h (Resolved (Some b))))) =
     map (\<lambda>t. (projr (ethers_getContractAddress ext (tx_from t) (tx_nonce t)),
                initialGetBytecodeTries m))
       (takeWhile (\<lambda>t. \<not> isl (ethers_getContractAddress ext (tx_from t) (tx_nonce t)))
          (filter (\<lambda>t. tx_to t = None \<or> tx_to t = Some []) (transactions b)))
   \<and> (createsContract tx \<longleftrightarrow> tx_to tx = None \<or> tx_to tx = Some [])"
proof -
  have creates: "createsContract = (\<lambda>t. tx_to t = None \<or> tx_to t = Some [])"
    by (rule ext) (simp add: createsContract_def split: option.splits)
  have derive: "getContractAddress ext = (\<lambda>t. ethers_getContractAddress ext (tx_from t) (tx_nonce t))"
    by (rule ext) (simp add: getContractAddress_def)
  show ?thesis
    using scanTransactions_calls [of ext "initialGetBytecodeTries m" "transactions b"]
    unfolding processBlock_dispatched creates derive by simp
qed

theorem C8_creations_dispatched_witness:
  "dispatched (snd (snd (processBlock noVariables toyLibrary startedMonitor 100
      (Resolved (Some \<lparr>transactions =
         [deployTx, transferTx, deployTx\<lparr>tx_to := Some []\<rparr>, brokenTx, deployTx]\<rparr>))))) =
     [(''0xabc++'', 3), (''0xabc++'', 3)]
   \<and> createsContract deployTx \<and> \<not> createsContract transferTx
   \<and> createsContract (deployTx\<lparr>tx_to := Some []\<rparr>)"
  using C8_creations_dispatched [where env = noVariables and ext = toyLibrary
      and m = startedMonitor and h = 100 and tx = deployTx
      and b = "\<lparr>transactions =
        [deployTx, transferTx, deployTx\<lparr>tx_to := Some []\<rparr>, brokenTx, deployTx]\<rparr>"]
    C8_creations_dispatched [where env = noVariables and ext = toyLibrary
      and m = startedMonitor and h = 100 and tx = transferTx and b = "\<lparr>transactions = []\<rparr>"]
    C8_creations_dispatched [where env = noVariables and ext = toyLibrary
      and m = startedMonitor and h = 100 and tx = "deployTx\<lparr>tx_to := Some []\<rparr>"
      and b = "\<lparr>transactions = []\<rparr>"]
  by (simp add: toyLibrary_def deployTx_def transferTx_def brokenTx_def startedMonitor_fields
      numeral_2_eq_2)

end
